theory Spec2Isabelle
  imports Main "HOL-Library.Word"
begin

unbundle bit_operations_syntax

section \<open>Vulkan value types used by the swapchain and the material\<close>

type_synonym uint32_t = "32 word"
type_synonym uint64_t = "64 word"

text \<open>Vulkan handles are opaque 64-bit values; the null handle is 0.\<close>

type_synonym VkHandle = "64 word"

definition VK_NULL_HANDLE :: VkHandle where
  "VK_NULL_HANDLE = 0"

definition UINT32_MAX :: uint32_t where
  "UINT32_MAX = 0xFFFFFFFF"

definition UINT64_MAX :: uint64_t where
  "UINT64_MAX = 0xFFFFFFFFFFFFFFFF"

text \<open>
  The enumerations of the graphics API. Only the enumerators the swapchain code names are
  listed; every other enumerator is covered by the last constructor, which carries the raw value.
\<close>

datatype VkResult =
    VK_SUCCESS
  | VK_NOT_READY
  | VK_TIMEOUT
  | VK_SUBOPTIMAL_KHR
  | VK_ERROR_OUT_OF_DATE_KHR
  | VK_ERROR_DEVICE_LOST
  | VK_ERROR_SURFACE_LOST_KHR
  | VK_RESULT_OTHER int

datatype VkFormat =
    VK_FORMAT_UNDEFINED
  | VK_FORMAT_B8G8R8A8_UNORM
  | VK_FORMAT_B8G8R8A8_SRGB
  | VK_FORMAT_R8G8B8A8_SRGB
  | VK_FORMAT_D16_UNORM
  | VK_FORMAT_D32_SFLOAT
  | VK_FORMAT_S8_UINT
  | VK_FORMAT_D16_UNORM_S8_UINT
  | VK_FORMAT_D24_UNORM_S8_UINT
  | VK_FORMAT_D32_SFLOAT_S8_UINT
  | VK_FORMAT_OTHER nat

datatype VkColorSpaceKHR =
    VK_COLOR_SPACE_SRGB_NONLINEAR_KHR
  | VK_COLOR_SPACE_OTHER nat

datatype VkPresentModeKHR =
    VK_PRESENT_MODE_IMMEDIATE_KHR
  | VK_PRESENT_MODE_MAILBOX_KHR
  | VK_PRESENT_MODE_FIFO_KHR
  | VK_PRESENT_MODE_FIFO_RELAXED_KHR
  | VK_PRESENT_MODE_OTHER nat

record VkSurfaceFormatKHR =
  format :: VkFormat
  colorSpace :: VkColorSpaceKHR

record VkExtent2D =
  width :: uint32_t
  height :: uint32_t

record VkSurfaceCapabilitiesKHR =
  minImageCount :: uint32_t
  maxImageCount :: uint32_t
  currentExtent :: VkExtent2D
  minImageExtent :: VkExtent2D
  maxImageExtent :: VkExtent2D
  currentTransform :: uint32_t

text \<open>
  How a call can fail to return a value: an element access outside a vector, a remainder by
  zero or a read through a reference to a destroyed object (undefined behaviour in C++), a format
  query of the device that finds no candidate, or a \<open>std::runtime_error\<close> with its message.
\<close>

datatype error =
    OutOfRange
  | DivisionByZero
  | DanglingReference
  | NoSupportedFormat
  | RuntimeError string

text \<open>
  A reference as a function returns it: to an object that outlives the call, or to a local
  variable of the function, whose lifetime ends at the return. Reading through the latter is
  undefined behaviour.
\<close>

datatype 'a reference = ToObject 'a | ToDestroyedLocal 'a

fun read_reference :: "'a reference \<Rightarrow> error + 'a" where
  "read_reference (ToObject object) = Inr object"
| "read_reference (ToDestroyedLocal _) = Inl DanglingReference"

section \<open>Selection of the swapchain parameters\<close>

text \<open>
  \<open>EngineSwapChain::chooseSwapSurfaceFormat\<close>: the range-for loop returns the first element
  that is the preferred pair; when the loop ends without a match the code reads
  \<open>availableFormats[0]\<close>, which is outside the vector when the vector is empty.
\<close>

fun chooseSwapSurfaceFormat_loop :: "VkSurfaceFormatKHR list \<Rightarrow> VkSurfaceFormatKHR option" where
  "chooseSwapSurfaceFormat_loop [] = None"
| "chooseSwapSurfaceFormat_loop (availableFormat # rest) =
     (if format availableFormat = VK_FORMAT_B8G8R8A8_SRGB
         \<and> colorSpace availableFormat = VK_COLOR_SPACE_SRGB_NONLINEAR_KHR
      then Some availableFormat
      else chooseSwapSurfaceFormat_loop rest)"

definition chooseSwapSurfaceFormat :: "VkSurfaceFormatKHR list \<Rightarrow> error + VkSurfaceFormatKHR" where
  "chooseSwapSurfaceFormat availableFormats =
     (case chooseSwapSurfaceFormat_loop availableFormats of
        Some availableFormat \<Rightarrow> Inr availableFormat
      | None \<Rightarrow>
          (case availableFormats of
             [] \<Rightarrow> Inl OutOfRange
           | first # _ \<Rightarrow> Inr first))"

text \<open>The preferred surface format: the pair the loop compares each element with.\<close>

definition preferredSurfaceFormat :: VkSurfaceFormatKHR where
  "preferredSurfaceFormat =
     \<lparr>format = VK_FORMAT_B8G8R8A8_SRGB, colorSpace = VK_COLOR_SPACE_SRGB_NONLINEAR_KHR\<rparr>"

text \<open>
  \<open>EngineSwapChain::chooseSwapPresentMode\<close>: the mailbox loop is commented out in the source,
  so only the loop for the immediate mode runs; the fallback is FIFO.
\<close>

fun chooseSwapPresentMode :: "VkPresentModeKHR list \<Rightarrow> VkPresentModeKHR" where
  "chooseSwapPresentMode [] = VK_PRESENT_MODE_FIFO_KHR"
| "chooseSwapPresentMode (availablePresentMode # rest) =
     (if availablePresentMode = VK_PRESENT_MODE_IMMEDIATE_KHR
      then availablePresentMode
      else chooseSwapPresentMode rest)"

text \<open>
  \<open>EngineSwapChain::chooseSwapExtent\<close>. The comparisons are those of \<open>uint32_t\<close>:
  \<open>min\<close> and \<open>max\<close> on words use the unsigned order.
\<close>

definition chooseSwapExtent :: "VkSurfaceCapabilitiesKHR \<Rightarrow> VkExtent2D \<Rightarrow> VkExtent2D" where
  "chooseSwapExtent capabilities windowExtent =
     (if width (currentExtent capabilities) \<noteq> UINT32_MAX
      then currentExtent capabilities
      else
        (let actualExtent = windowExtent;
             actualExtent = actualExtent\<lparr>width :=
               max (width (minImageExtent capabilities))
                   (min (width (maxImageExtent capabilities)) (width actualExtent))\<rparr>;
             actualExtent = actualExtent\<lparr>height :=
               max (height (minImageExtent capabilities))
                   (min (height (maxImageExtent capabilities)) (height actualExtent))\<rparr>
         in actualExtent))"

section \<open>The device collaborator\<close>

record SwapChainSupportDetails =
  capabilities :: VkSurfaceCapabilitiesKHR
  formats :: "VkSurfaceFormatKHR list"
  presentModes :: "VkPresentModeKHR list"

record QueueFamilyIndices =
  graphicsFamily :: uint32_t
  presentFamily :: uint32_t

datatype VkImageTiling = VK_IMAGE_TILING_OPTIMAL | VK_IMAGE_TILING_LINEAR

definition VK_FORMAT_FEATURE_DEPTH_STENCIL_ATTACHMENT_BIT :: uint32_t where
  "VK_FORMAT_FEATURE_DEPTH_STENCIL_ATTACHMENT_BIT = 0x200"

text \<open>
  \<open>EngineDevice\<close> is used through a reference. The record holds what the swapchain reads from
  it: the handles returned by \<open>device()\<close>, \<open>surface()\<close>, \<open>graphicsQueue()\<close> and
  \<open>presentQueue()\<close>, the answers of \<open>getSwapChainSupport()\<close> and
  \<open>findPhysicalQueueFamilies()\<close>, and which formats the physical device supports for a tiling
  and a set of features.
\<close>

record EngineDevice =
  device_handle :: VkHandle
  surface :: VkHandle
  graphicsQueue :: VkHandle
  presentQueue :: VkHandle
  getSwapChainSupport :: SwapChainSupportDetails
  findPhysicalQueueFamilies :: QueueFamilyIndices
  formatSupported :: "VkFormat \<Rightarrow> VkImageTiling \<Rightarrow> uint32_t \<Rightarrow> bool"

text \<open>
  Modelled from the spec: \<open>EngineDevice::findSupportedFormat\<close> is defined in the device's
  source file, which is not among the sources. The spec describes it as a format-selection query
  (ordered candidate list plus desired tiling and features) that yields the first supported
  candidate of the list. \<open>None\<close> stands for the case that no candidate is supported, about
  which the spec says nothing.
\<close>

fun findSupportedFormat ::
  "EngineDevice \<Rightarrow> VkFormat list \<Rightarrow> VkImageTiling \<Rightarrow> uint32_t \<Rightarrow> VkFormat option" where
  "findSupportedFormat dev [] tiling features = None"
| "findSupportedFormat dev (candidate # rest) tiling features =
     (if formatSupported dev candidate tiling features
      then Some candidate
      else findSupportedFormat dev rest tiling features)"

text \<open>
  \<open>EngineSwapChain::findDepthFormat\<close>: two candidates with a stencil component, and the
  depth-only format pushed to the back when no stencil is required.
\<close>

definition findDepthFormat_candidates :: "bool \<Rightarrow> VkFormat list" where
  "findDepthFormat_candidates stencilRequired =
     (let candidates = [VK_FORMAT_D32_SFLOAT_S8_UINT, VK_FORMAT_D24_UNORM_S8_UINT]
      in if \<not> stencilRequired then candidates @ [VK_FORMAT_D32_SFLOAT] else candidates)"

definition findDepthFormat :: "EngineDevice \<Rightarrow> bool \<Rightarrow> VkFormat option" where
  "findDepthFormat dev stencilRequired =
     findSupportedFormat dev (findDepthFormat_candidates stencilRequired)
       VK_IMAGE_TILING_OPTIMAL VK_FORMAT_FEATURE_DEPTH_STENCIL_ATTACHMENT_BIT"

text \<open>Which formats of the graphics API carry a stencil component.\<close>

fun hasStencilComponent :: "VkFormat \<Rightarrow> bool" where
  "hasStencilComponent VK_FORMAT_S8_UINT = True"
| "hasStencilComponent VK_FORMAT_D16_UNORM_S8_UINT = True"
| "hasStencilComponent VK_FORMAT_D24_UNORM_S8_UINT = True"
| "hasStencilComponent VK_FORMAT_D32_SFLOAT_S8_UINT = True"
| "hasStencilComponent _ = False"

section \<open>Attachments\<close>

datatype AttachmentType = COLOR | RESOLVE | DEPTH | DEPTH_STENCIL

definition VK_SAMPLE_COUNT_1_BIT :: uint32_t where
  "VK_SAMPLE_COUNT_1_BIT = 1"

record AttachmentProperties =
  props_type :: AttachmentType
  props_extent :: VkExtent2D
  props_format :: VkFormat
  props_imageCount :: uint32_t
  props_samples :: uint32_t

text \<open>The constructor \<open>AttachmentProperties(type)\<close> value-initialises the other members.\<close>

definition AttachmentProperties_new :: "AttachmentType \<Rightarrow> AttachmentProperties" where
  "AttachmentProperties_new t =
     \<lparr>props_type = t, props_extent = \<lparr>width = 0, height = 0\<rparr>, props_format = VK_FORMAT_UNDEFINED,
      props_imageCount = 0, props_samples = 0\<rparr>"

text \<open>The members of \<open>Attachment\<close>: its image resources, in order, and its properties.\<close>

record Attachment =
  images :: "VkHandle list"
  props :: AttachmentProperties

text \<open>
  Modelled from the spec: the swapchain constructor of \<open>Attachment\<close> is declared in
  \<open>Attachment.h\<close> but its body is not among the sources. The spec: given properties and a
  sequence of externally owned image handles, it wraps each handle in a non-owning image, without
  allocating; the attachment owns a sequence of image resources and keeps its properties.
\<close>

definition Attachment_swapchain ::
  "EngineDevice \<Rightarrow> AttachmentProperties \<Rightarrow> VkHandle list \<Rightarrow> Attachment" where
  "Attachment_swapchain dev properties swapchainImages =
     \<lparr>images = swapchainImages, props = properties\<rparr>"

section \<open>The swapchain\<close>

subsection \<open>Calls into the graphics API\<close>

datatype VkSharingMode = VK_SHARING_MODE_EXCLUSIVE | VK_SHARING_MODE_CONCURRENT

definition VK_IMAGE_USAGE_COLOR_ATTACHMENT_BIT :: uint32_t where
  "VK_IMAGE_USAGE_COLOR_ATTACHMENT_BIT = 0x10"

definition VK_COMPOSITE_ALPHA_OPAQUE_BIT_KHR :: uint32_t where
  "VK_COMPOSITE_ALPHA_OPAQUE_BIT_KHR = 1"

definition VK_PIPELINE_STAGE_COLOR_ATTACHMENT_OUTPUT_BIT :: uint32_t where
  "VK_PIPELINE_STAGE_COLOR_ATTACHMENT_OUTPUT_BIT = 0x400"

record VkSwapchainCreateInfoKHR =
  ci_surface :: VkHandle
  ci_minImageCount :: uint32_t
  ci_imageFormat :: VkFormat
  ci_imageColorSpace :: VkColorSpaceKHR
  ci_imageExtent :: VkExtent2D
  ci_imageArrayLayers :: uint32_t
  ci_imageUsage :: uint32_t
  ci_imageSharingMode :: VkSharingMode
  ci_queueFamilyIndexCount :: uint32_t
  ci_pQueueFamilyIndices :: "uint32_t list"
  ci_preTransform :: uint32_t
  ci_compositeAlpha :: uint32_t
  ci_presentMode :: VkPresentModeKHR
  ci_clipped :: bool
  ci_oldSwapchain :: VkHandle

record VkSubmitInfo =
  si_pWaitSemaphores :: "VkHandle list"
  si_pWaitDstStageMask :: "uint32_t list"
  si_commandBufferCount :: uint32_t
  si_pCommandBuffers :: "VkHandle list"
  si_pSignalSemaphores :: "VkHandle list"

record VkPresentInfoKHR =
  pi_pWaitSemaphores :: "VkHandle list"
  pi_pSwapchains :: "VkHandle list"
  pi_pImageIndices :: "uint32_t list"

text \<open>
  The calls a member function makes into the graphics API, in the order in which it makes them.
  A wait carries the fences, the wait-all flag and the timeout; a submission carries the queue,
  the submit info and the fence it signals.
\<close>

datatype vk_call =
    CreateSwapchainKHR VkHandle VkSwapchainCreateInfoKHR
  | GetSwapchainImagesKHR VkHandle VkHandle
  | WaitForFences VkHandle "VkHandle list" bool uint64_t
  | ResetFences VkHandle "VkHandle list"
  | AcquireNextImageKHR VkHandle VkHandle uint64_t VkHandle VkHandle
  | QueueSubmit VkHandle VkSubmitInfo VkHandle
  | QueuePresentKHR VkHandle VkPresentInfoKHR

subsection \<open>The object\<close>

type_synonym size_t = "64 word"

text \<open>
  The data members of \<open>EngineSwapChain\<close> that its member functions read and write.
  \<open>currentFrame\<close> indexes the vectors and is advanced against \<open>MAX_FRAMES_IN_FLIGHT\<close>,
  which the loops compare with a \<open>size_t\<close> counter: both are taken as \<open>size_t\<close>. The device
  is a reference to an object the swapchain does not own and is passed to each operation.
  \<open>oldSwapchain\<close> is a shared pointer to the previous swapchain, of which only the member
  \<open>swapchain\<close> is read: \<open>None\<close> is the null pointer, \<open>Some h\<close> a previous swapchain whose
  handle is \<open>h\<close>. \<open>swapchainAttachment\<close> is a unique pointer.
\<close>

record EngineSwapChain =
  oldSwapchain :: "VkHandle option"
  swapchain :: VkHandle
  imageFormat :: VkFormat
  depthFormat :: VkFormat
  extent :: VkExtent2D
  imageCount :: uint32_t
  swapchainAttachment :: "Attachment option"
  imageAvailableSemaphores :: "VkHandle list"
  renderFinishedSemaphores :: "VkHandle list"
  inFlightFences :: "VkHandle list"
  imagesInFlight :: "VkHandle list"
  currentFrame :: size_t

text \<open>
  The object before the constructor body runs: empty vectors, null pointers and handles. The
  format, extent and image-count members are assigned by \<open>init\<close> before they are read. No
  constructor assigns \<open>currentFrame\<close>: its member initialiser is in \<open>Swapchain.h\<close>, which is
  not among the sources, so the initial value is a parameter.
\<close>

definition EngineSwapChain_members :: "VkHandle option \<Rightarrow> size_t \<Rightarrow> EngineSwapChain" where
  "EngineSwapChain_members previous currentFrame_initial =
     \<lparr>oldSwapchain = previous, swapchain = VK_NULL_HANDLE,
      imageFormat = VK_FORMAT_UNDEFINED, depthFormat = VK_FORMAT_UNDEFINED,
      extent = \<lparr>width = 0, height = 0\<rparr>, imageCount = 0,
      swapchainAttachment = None,
      imageAvailableSemaphores = [], renderFinishedSemaphores = [],
      inFlightFences = [], imagesInFlight = [],
      currentFrame = currentFrame_initial\<rparr>"

text \<open>
  \<open>EngineSwapChain::getAttachmentProperties\<close>. The return type is
  \<open>const AttachmentProperties&\<close> and the returned reference is bound to the local \<open>props\<close>,
  which is destroyed when the function returns.
\<close>

definition getAttachmentProperties :: "EngineSwapChain \<Rightarrow> AttachmentProperties reference" where
  "getAttachmentProperties this =
     (let props = (AttachmentProperties_new COLOR)
            \<lparr>props_extent := extent this, props_format := imageFormat this,
             props_imageCount := imageCount this, props_samples := VK_SAMPLE_COUNT_1_BIT\<rparr>
      in ToDestroyedLocal props)"

definition getSwapchainAttachment :: "EngineSwapChain \<Rightarrow> Attachment option" where
  "getSwapchainAttachment this = swapchainAttachment this"

subsection \<open>Construction\<close>

text \<open>
  What the presentation subsystem answers during \<open>init\<close>: the status of the creation and the
  handle it writes, the number of images of the chain and their handles by position.
\<close>

record init_answers =
  createSwapchain_result :: VkResult
  createSwapchain_handle :: VkHandle
  swapchainImages_count :: uint32_t
  swapchainImages_handle :: "nat \<Rightarrow> VkHandle"

text \<open>The image count that \<open>init\<close> computes from the capabilities, in \<open>uint32_t\<close> arithmetic.\<close>

definition init_imageCount :: "VkSurfaceCapabilitiesKHR \<Rightarrow> uint32_t" where
  "init_imageCount caps =
     (let imageCount = minImageCount caps + 1
      in if maxImageCount caps > 0 \<and> imageCount > maxImageCount caps
         then maxImageCount caps
         else imageCount)"

text \<open>The create info that \<open>init\<close> fills in, once formats, extent and count are chosen.\<close>

definition init_createInfo ::
  "EngineDevice \<Rightarrow> EngineSwapChain \<Rightarrow> VkSurfaceFormatKHR \<Rightarrow> VkPresentModeKHR
     \<Rightarrow> VkSwapchainCreateInfoKHR" where
  "init_createInfo dev this surfaceFormat presentMode =
     (let indices = findPhysicalQueueFamilies dev;
          queueFamilyIndices = [graphicsFamily indices, presentFamily indices];
          concurrent = (graphicsFamily indices \<noteq> presentFamily indices)
      in \<lparr>ci_surface = surface dev,
          ci_minImageCount = imageCount this,
          ci_imageFormat = imageFormat this,
          ci_imageColorSpace = colorSpace surfaceFormat,
          ci_imageExtent = extent this,
          ci_imageArrayLayers = 1,
          ci_imageUsage = VK_IMAGE_USAGE_COLOR_ATTACHMENT_BIT,
          ci_imageSharingMode =
            (if concurrent then VK_SHARING_MODE_CONCURRENT else VK_SHARING_MODE_EXCLUSIVE),
          ci_queueFamilyIndexCount = (if concurrent then 2 else 0),
          ci_pQueueFamilyIndices = (if concurrent then queueFamilyIndices else []),
          ci_preTransform = currentTransform (capabilities (getSwapChainSupport dev)),
          ci_compositeAlpha = VK_COMPOSITE_ALPHA_OPAQUE_BIT_KHR,
          ci_presentMode = presentMode,
          ci_clipped = True,
          ci_oldSwapchain =
            (case oldSwapchain this of None \<Rightarrow> VK_NULL_HANDLE | Some previous \<Rightarrow> previous)\<rparr>)"

text \<open>
  \<open>EngineSwapChain::init\<close>. The result is the object after the call, or the reason why the
  call did not return, together with the calls made. An empty format list makes
  \<open>chooseSwapSurfaceFormat\<close> read outside the vector; a depth-format query without a supported
  candidate and a failed creation end the construction. After the creation the local
  \<open>swapProperties\<close> is copy-initialised from the reference that \<open>getAttachmentProperties\<close>
  returns, which is a read through that reference.
\<close>

definition init ::
  "EngineDevice \<Rightarrow> init_answers \<Rightarrow> EngineSwapChain \<Rightarrow> VkExtent2D
     \<Rightarrow> (error + EngineSwapChain) \<times> vk_call list" where
  "init dev answers this windowExtent =
     (let swapChainSupport = getSwapChainSupport dev
      in case chooseSwapSurfaceFormat (formats swapChainSupport) of
           Inl e \<Rightarrow> (Inl e, [])
         | Inr surfaceFormat \<Rightarrow>
             (let presentMode = chooseSwapPresentMode (presentModes swapChainSupport);
                  this = this\<lparr>imageFormat := format surfaceFormat\<rparr>
              in case findDepthFormat dev True of
                   None \<Rightarrow> (Inl NoSupportedFormat, [])
                 | Some depth \<Rightarrow>
                     (let this = this\<lparr>depthFormat := depth\<rparr>;
                          this = this\<lparr>extent :=
                            chooseSwapExtent (capabilities swapChainSupport) windowExtent\<rparr>;
                          this = this\<lparr>imageCount :=
                            init_imageCount (capabilities swapChainSupport)\<rparr>;
                          createInfo = init_createInfo dev this surfaceFormat presentMode;
                          create = CreateSwapchainKHR (device_handle dev) createInfo
                      in if createSwapchain_result answers \<noteq> VK_SUCCESS
                         then (Inl (RuntimeError ''failed to create swap chain!''), [create])
                         else
                           (let this = this\<lparr>swapchain := createSwapchain_handle answers\<rparr>;
                                this = this\<lparr>imageCount := swapchainImages_count answers\<rparr>;
                                swapImages = map (swapchainImages_handle answers)
                                               [0 ..< unat (imageCount this)];
                                query = GetSwapchainImagesKHR (device_handle dev) (swapchain this)
                            in case read_reference (getAttachmentProperties this) of
                                 Inl e \<Rightarrow> (Inl e, [create, query, query])
                               | Inr swapProperties \<Rightarrow>
                                   (let this = this\<lparr>swapchainAttachment :=
                                          Some (Attachment_swapchain dev swapProperties
                                                  swapImages)\<rparr>
                                    in (Inr this, [create, query, query]))))))"

text \<open>\<open>std::vector::resize(n, v)\<close>: cut to \<open>n\<close> elements, or filled up with copies of \<open>v\<close>.\<close>

definition resize :: "'a list \<Rightarrow> nat \<Rightarrow> 'a \<Rightarrow> 'a list" where
  "resize xs n v = take n xs @ replicate (n - length xs) v"

text \<open>
  What the device answers to the three creations of slot \<open>i\<close> in \<open>createSyncObjects\<close>:
  the status and the handle written.
\<close>

record sync_answers =
  createSemaphore_imageAvailable :: "nat \<Rightarrow> VkResult \<times> VkHandle"
  createSemaphore_renderFinished :: "nat \<Rightarrow> VkResult \<times> VkHandle"
  createFence_inFlight :: "nat \<Rightarrow> VkResult \<times> VkHandle"

text \<open>
  The loop of \<open>createSyncObjects\<close> over the slots. The three creations are joined by \<open>||\<close>,
  so the first failure skips the remaining ones and throws.
\<close>

fun createSyncObjects_loop ::
  "sync_answers \<Rightarrow> nat list \<Rightarrow> EngineSwapChain \<Rightarrow> error + EngineSwapChain" where
  "createSyncObjects_loop answers [] this = Inr this"
| "createSyncObjects_loop answers (i # slots) this =
     (let failed = RuntimeError ''failed to create synchronization objects for a frame'';
          (r1, h1) = createSemaphore_imageAvailable answers i
      in if r1 \<noteq> VK_SUCCESS then Inl failed
         else
           (let this = this\<lparr>imageAvailableSemaphores := (imageAvailableSemaphores this)[i := h1]\<rparr>;
                (r2, h2) = createSemaphore_renderFinished answers i
            in if r2 \<noteq> VK_SUCCESS then Inl failed
               else
                 (let this = this\<lparr>renderFinishedSemaphores :=
                        (renderFinishedSemaphores this)[i := h2]\<rparr>;
                      (r3, h3) = createFence_inFlight answers i
                  in if r3 \<noteq> VK_SUCCESS then Inl failed
                     else createSyncObjects_loop answers slots
                            (this\<lparr>inFlightFences := (inFlightFences this)[i := h3]\<rparr>))))"

text \<open>
  \<open>EngineSwapChain::createSyncObjects\<close>; \<open>MAX_FRAMES_IN_FLIGHT\<close> is a constant of the class
  (declared in \<open>Swapchain.h\<close>) and a parameter here.
\<close>

definition createSyncObjects ::
  "size_t \<Rightarrow> sync_answers \<Rightarrow> EngineSwapChain \<Rightarrow> error + EngineSwapChain" where
  "createSyncObjects MAX_FRAMES_IN_FLIGHT answers this =
     (let n = unat MAX_FRAMES_IN_FLIGHT;
          this = this\<lparr>imageAvailableSemaphores :=
                   resize (imageAvailableSemaphores this) n VK_NULL_HANDLE\<rparr>;
          this = this\<lparr>renderFinishedSemaphores :=
                   resize (renderFinishedSemaphores this) n VK_NULL_HANDLE\<rparr>;
          this = this\<lparr>inFlightFences := resize (inFlightFences this) n VK_NULL_HANDLE\<rparr>;
          this = this\<lparr>imagesInFlight :=
                   resize (imagesInFlight this) (unat (imageCount this)) VK_NULL_HANDLE\<rparr>
      in createSyncObjects_loop answers [0 ..< n] this)"

text \<open>
  The two constructors: \<open>init\<close>, then \<open>createSyncObjects\<close>; the second one takes the previous
  swapchain and drops it at the end. \<open>currentFrame_initial\<close> is the value of the member
  initialiser of \<open>currentFrame\<close>.
\<close>

definition EngineSwapChain_new ::
  "size_t \<Rightarrow> size_t \<Rightarrow> EngineDevice \<Rightarrow> init_answers \<Rightarrow> sync_answers \<Rightarrow> VkExtent2D
     \<Rightarrow> (error + EngineSwapChain) \<times> vk_call list" where
  "EngineSwapChain_new MAX_FRAMES_IN_FLIGHT currentFrame_initial dev ia sa windowExtent =
     (case init dev ia (EngineSwapChain_members None currentFrame_initial) windowExtent of
        (Inl e, calls) \<Rightarrow> (Inl e, calls)
      | (Inr this, calls) \<Rightarrow> (createSyncObjects MAX_FRAMES_IN_FLIGHT sa this, calls))"

definition EngineSwapChain_new_previous ::
  "size_t \<Rightarrow> size_t \<Rightarrow> EngineDevice \<Rightarrow> init_answers \<Rightarrow> sync_answers \<Rightarrow> VkExtent2D
     \<Rightarrow> VkHandle option \<Rightarrow> (error + EngineSwapChain) \<times> vk_call list" where
  "EngineSwapChain_new_previous MAX_FRAMES_IN_FLIGHT currentFrame_initial dev ia sa windowExtent
       previous =
     (case init dev ia (EngineSwapChain_members previous currentFrame_initial) windowExtent of
        (Inl e, calls) \<Rightarrow> (Inl e, calls)
      | (Inr this, calls) \<Rightarrow>
          (case createSyncObjects MAX_FRAMES_IN_FLIGHT sa this of
             Inl e \<Rightarrow> (Inl e, calls)
           | Inr this \<Rightarrow> (Inr (this\<lparr>oldSwapchain := None\<rparr>), calls)))"

subsection \<open>The frame cycle\<close>

text \<open>
  \<open>EngineSwapChain::acquireNextImage\<close>. The answer of the presentation subsystem is its status
  and the index it writes through the pointer (\<open>None\<close>: it writes nothing). The result is the
  returned status, the value behind \<open>imageIndex\<close> after the call, the object after the call
  and the calls made.
\<close>

definition acquireNextImage ::
  "EngineDevice \<Rightarrow> VkResult \<times> uint32_t option \<Rightarrow> EngineSwapChain \<Rightarrow> uint32_t
     \<Rightarrow> (error + VkResult) \<times> uint32_t \<times> EngineSwapChain \<times> vk_call list" where
  "acquireNextImage dev answer this imageIndex =
     (let frame = unat (currentFrame this)
      in if \<not> frame < length (inFlightFences this) then (Inl OutOfRange, imageIndex, this, [])
         else
           (let wait = WaitForFences (device_handle dev) [inFlightFences this ! frame] True UINT64_MAX
            in if \<not> frame < length (imageAvailableSemaphores this)
               then (Inl OutOfRange, imageIndex, this, [wait])
               else
                 (Inr (fst answer),
                  (case snd answer of None \<Rightarrow> imageIndex | Some written \<Rightarrow> written),
                  this,
                  [wait,
                   AcquireNextImageKHR (device_handle dev) (swapchain this) UINT64_MAX
                     (imageAvailableSemaphores this ! frame) VK_NULL_HANDLE])))"

text \<open>What the queues answer in \<open>submitCommandBuffers\<close>: the status of the submission and of the present.\<close>

record submit_answers =
  queueSubmit_result :: VkResult
  queuePresent_result :: VkResult

text \<open>
  \<open>EngineSwapChain::submitCommandBuffers\<close>. \<open>buffers\<close> is the array behind the pointer,
  \<open>imageIndex\<close> the value behind the pointer. The result is the returned status or the reason
  why the call did not return, the object after the call and the calls made. Reading a vector
  outside its bounds and a remainder by zero are undefined in C++ and end the model's run.
\<close>

definition submitCommandBuffers ::
  "size_t \<Rightarrow> EngineDevice \<Rightarrow> submit_answers \<Rightarrow> EngineSwapChain \<Rightarrow> VkHandle list \<Rightarrow> uint32_t
     \<Rightarrow> (error + VkResult) \<times> EngineSwapChain \<times> vk_call list" where
  "submitCommandBuffers MAX_FRAMES_IN_FLIGHT dev answers this buffers imageIndex =
     (let index = unat imageIndex; frame = unat (currentFrame this)
      in if \<not> index < length (imagesInFlight this) then (Inl OutOfRange, this, [])
         else
           (let waits =
                  (if imagesInFlight this ! index \<noteq> VK_NULL_HANDLE
                   then [WaitForFences (device_handle dev) [imagesInFlight this ! index] True UINT64_MAX]
                   else [])
            in if \<not> frame < length (inFlightFences this) then (Inl OutOfRange, this, waits)
               else
                 (let this = this\<lparr>imagesInFlight :=
                        (imagesInFlight this)[index := inFlightFences this ! frame]\<rparr>
                  in if \<not> frame < length (imageAvailableSemaphores this)
                        \<or> \<not> frame < length (renderFinishedSemaphores this)
                     then (Inl OutOfRange, this, waits)
                     else
                       (let waitSemaphores = [imageAvailableSemaphores this ! frame];
                            waitStages = [VK_PIPELINE_STAGE_COLOR_ATTACHMENT_OUTPUT_BIT];
                            signalSemaphores = [renderFinishedSemaphores this ! frame];
                            submitInfo =
                              \<lparr>si_pWaitSemaphores = waitSemaphores,
                               si_pWaitDstStageMask = waitStages,
                               si_commandBufferCount = 1,
                               si_pCommandBuffers = buffers,
                               si_pSignalSemaphores = signalSemaphores\<rparr>;
                            reset = ResetFences (device_handle dev) [inFlightFences this ! frame];
                            submit = QueueSubmit (graphicsQueue dev) submitInfo
                                       (inFlightFences this ! frame)
                        in if queueSubmit_result answers \<noteq> VK_SUCCESS
                           then (Inl (RuntimeError ''failed to submit draw command buffer!''),
                                 this, waits @ [reset, submit])
                           else
                             (let presentInfo =
                                    \<lparr>pi_pWaitSemaphores = signalSemaphores,
                                     pi_pSwapchains = [swapchain this],
                                     pi_pImageIndices = [imageIndex]\<rparr>;
                                  present = QueuePresentKHR (presentQueue dev) presentInfo;
                                  result = queuePresent_result answers
                              in if MAX_FRAMES_IN_FLIGHT = 0
                                 then (Inl DivisionByZero, this, waits @ [reset, submit, present])
                                 else
                                   (Inr result,
                                    this\<lparr>currentFrame :=
                                      (currentFrame this + 1) mod MAX_FRAMES_IN_FLIGHT\<rparr>,
                                    waits @ [reset, submit, present]))))))"

section \<open>The material\<close>

definition VK_SHADER_STAGE_VERTEX_BIT :: uint32_t where
  "VK_SHADER_STAGE_VERTEX_BIT = 0x1"

definition VK_SHADER_STAGE_FRAGMENT_BIT :: uint32_t where
  "VK_SHADER_STAGE_FRAGMENT_BIT = 0x10"

record ShaderFilePaths =
  vertPath :: string
  fragPath :: string

text \<open>
  \<open>MaterialCreateInfo\<close>, without the shading properties, which play no part in the
  push-constant path.
\<close>

record MaterialCreateInfo =
  shaderPaths :: ShaderFilePaths
  descriptorSetLayouts :: "VkHandle list"
  samples :: uint32_t
  renderpass :: VkHandle
  pushConstSize :: size_t

record Material =
  materialCreateInfo :: MaterialCreateInfo
  vertexShaderModule :: VkHandle
  fragmentShaderModule :: VkHandle
  pipelineLayout :: VkHandle
  pipeline :: VkHandle
  descriptorSet :: "VkHandle option"

text \<open>
  What is recorded into a command buffer. A push-constant write carries the pipeline layout,
  the stage flags, the offset, the size in bytes and the address of the data.
\<close>

datatype 'a cmd =
    CmdBindPipeline VkHandle
  | CmdPushConstants VkHandle uint32_t uint32_t uint32_t 'a

text \<open>
  \<open>Material::writePushConstants<T>\<close>. \<open>sizeof_T\<close> is the size of the payload type in bytes,
  a \<open>size_t\<close> that the call converts to the \<open>uint32_t\<close> size parameter. The result is the
  command buffer after the call.
\<close>

definition writePushConstants ::
  "size_t \<Rightarrow> Material \<Rightarrow> 'a cmd list \<Rightarrow> 'a \<Rightarrow> 'a cmd list" where
  "writePushConstants sizeof_T this cmdBuf data =
     cmdBuf @
       [CmdPushConstants (pipelineLayout this)
          (VK_SHADER_STAGE_VERTEX_BIT OR VK_SHADER_STAGE_FRAGMENT_BIT) 0
          (ucast sizeof_T) data]"

section \<open>Sequences of operations on one swapchain\<close>






text \<open>
  The vectors of the object have the sizes that \<open>createSyncObjects\<close> gives them: one entry per
  frame slot in the three vectors of synchronisation objects, one entry per swapchain image in
  the fence table.
\<close>

definition slots_allocated :: "size_t \<Rightarrow> EngineSwapChain \<Rightarrow> bool" where
  "slots_allocated MAX_FRAMES_IN_FLIGHT this \<longleftrightarrow>
     length (imageAvailableSemaphores this) = unat MAX_FRAMES_IN_FLIGHT
     \<and> length (renderFinishedSemaphores this) = unat MAX_FRAMES_IN_FLIGHT
     \<and> length (inFlightFences this) = unat MAX_FRAMES_IN_FLIGHT
     \<and> length (imagesInFlight this) = unat (imageCount this)"


section \<open>Terms of the specification\<close>

text \<open>
  A value \<open>r\<close> is \<open>x\<close> clamped into the interval from \<open>lo\<close> to \<open>hi\<close>: it lies in the interval,
  it is the nearer bound when \<open>x\<close> lies outside and \<open>x\<close> itself otherwise.
\<close>

definition clamped_into :: "uint32_t \<Rightarrow> uint32_t \<Rightarrow> uint32_t \<Rightarrow> uint32_t \<Rightarrow> bool" where
  "clamped_into lo hi x r \<longleftrightarrow>
     lo \<le> r \<and> r \<le> hi \<and> (if x < lo then r = lo else if hi < x then r = hi else r = x)"

definition extent_clamped_into ::
  "VkExtent2D \<Rightarrow> VkExtent2D \<Rightarrow> VkExtent2D \<Rightarrow> VkExtent2D \<Rightarrow> bool" where
  "extent_clamped_into lo hi x r \<longleftrightarrow>
     clamped_into (width lo) (width hi) (width x) (width r)
     \<and> clamped_into (height lo) (height hi) (height x) (height r)"

text \<open>The position of the first supported candidate of a list, if there is one.\<close>

fun first_supported :: "(VkFormat \<Rightarrow> bool) \<Rightarrow> VkFormat list \<Rightarrow> nat option" where
  "first_supported supported [] = None"
| "first_supported supported (candidate # rest) =
     (if supported candidate then Some 0
      else map_option Suc (first_supported supported rest))"

section \<open>Example inputs\<close>

definition example_capabilities :: VkSurfaceCapabilitiesKHR where
  "example_capabilities =
     \<lparr>minImageCount = 2, maxImageCount = 0,
      currentExtent = \<lparr>width = 800, height = 600\<rparr>,
      minImageExtent = \<lparr>width = 1, height = 1\<rparr>,
      maxImageExtent = \<lparr>width = 4096, height = 4096\<rparr>,
      currentTransform = 1\<rparr>"

definition example_sentinel_capabilities :: VkSurfaceCapabilitiesKHR where
  "example_sentinel_capabilities =
     example_capabilities\<lparr>currentExtent := \<lparr>width = UINT32_MAX, height = UINT32_MAX\<rparr>\<rparr>"

fun example_formatSupported :: "VkFormat \<Rightarrow> VkImageTiling \<Rightarrow> uint32_t \<Rightarrow> bool" where
  "example_formatSupported VK_FORMAT_D24_UNORM_S8_UINT VK_IMAGE_TILING_OPTIMAL features = True"
| "example_formatSupported VK_FORMAT_D32_SFLOAT VK_IMAGE_TILING_OPTIMAL features = True"
| "example_formatSupported _ _ _ = False"

definition example_device :: EngineDevice where
  "example_device =
     \<lparr>device_handle = 100, surface = 101, graphicsQueue = 102, presentQueue = 103,
      getSwapChainSupport =
        \<lparr>capabilities = example_capabilities,
         formats = [\<lparr>format = VK_FORMAT_B8G8R8A8_UNORM, colorSpace = VK_COLOR_SPACE_SRGB_NONLINEAR_KHR\<rparr>,
                    \<lparr>format = VK_FORMAT_B8G8R8A8_SRGB, colorSpace = VK_COLOR_SPACE_SRGB_NONLINEAR_KHR\<rparr>],
         presentModes = [VK_PRESENT_MODE_FIFO_KHR, VK_PRESENT_MODE_MAILBOX_KHR]\<rparr>,
      findPhysicalQueueFamilies = \<lparr>graphicsFamily = 0, presentFamily = 0\<rparr>,
      formatSupported = example_formatSupported\<rparr>"

fun example_image :: "nat \<Rightarrow> VkHandle" where
  "example_image i = 200 + of_nat i"

definition example_init_answers :: init_answers where
  "example_init_answers =
     \<lparr>createSwapchain_result = VK_SUCCESS, createSwapchain_handle = 104,
      swapchainImages_count = 3, swapchainImages_handle = example_image\<rparr>"

fun example_created :: "VkHandle \<Rightarrow> nat \<Rightarrow> VkResult \<times> VkHandle" where
  "example_created base i = (VK_SUCCESS, base + of_nat i)"

definition example_sync_answers :: sync_answers where
  "example_sync_answers =
     \<lparr>createSemaphore_imageAvailable = example_created 300,
      createSemaphore_renderFinished = example_created 400,
      createFence_inFlight = example_created 500\<rparr>"

text \<open>
  A swapchain with two frames in flight and three images, its vectors sized as
  \<open>createSyncObjects\<close> sizes them.
\<close>

definition example_swapchain :: EngineSwapChain where
  "example_swapchain =
     \<lparr>oldSwapchain = None, swapchain = 104,
      imageFormat = VK_FORMAT_B8G8R8A8_SRGB, depthFormat = VK_FORMAT_D24_UNORM_S8_UINT,
      extent = \<lparr>width = 800, height = 600\<rparr>, imageCount = 3,
      swapchainAttachment = Some
        \<lparr>images = [200, 201, 202],
         props = \<lparr>props_type = COLOR, props_extent = \<lparr>width = 800, height = 600\<rparr>,
                  props_format = VK_FORMAT_B8G8R8A8_SRGB, props_imageCount = 3,
                  props_samples = 1\<rparr>\<rparr>,
      imageAvailableSemaphores = [300, 301],
      renderFinishedSemaphores = [400, 401],
      inFlightFences = [500, 501],
      imagesInFlight = [0, 0, 0],
      currentFrame = 0\<rparr>"

definition example_submit_ok :: submit_answers where
  "example_submit_ok = \<lparr>queueSubmit_result = VK_SUCCESS, queuePresent_result = VK_ERROR_OUT_OF_DATE_KHR\<rparr>"

definition example_submit_failed :: submit_answers where
  "example_submit_failed =
     \<lparr>queueSubmit_result = VK_ERROR_DEVICE_LOST, queuePresent_result = VK_SUCCESS\<rparr>"

definition example_swapchain_busy :: EngineSwapChain where
  "example_swapchain_busy =
     example_swapchain\<lparr>imagesInFlight := [0, 500, 0], currentFrame := 1\<rparr>"


definition example_material :: Material where
  "example_material =
     \<lparr>materialCreateInfo =
        \<lparr>shaderPaths = \<lparr>vertPath = ''mesh.vert.spv'', fragPath = ''mesh.frag.spv''\<rparr>,
         descriptorSetLayouts = [], samples = 1, renderpass = 600, pushConstSize = 64\<rparr>,
      vertexShaderModule = 601, fragmentShaderModule = 602,
      pipelineLayout = 603, pipeline = 604, descriptorSet = None\<rparr>"

text \<open>A payload object of 128 bytes.\<close>

definition example_payload :: "8 word list" where
  "example_payload = replicate 128 0"

section \<open>Properties of the selection functions\<close>

text \<open>What the loop of \<open>chooseSwapSurfaceFormat\<close> finds, and when it finds nothing.\<close>

lemma chooseSwapSurfaceFormat_loop_Some:
  "chooseSwapSurfaceFormat_loop fs = Some f \<Longrightarrow> f = preferredSurfaceFormat \<and> f \<in> set fs"
  by (induction fs) (auto simp: preferredSurfaceFormat_def split: if_splits)

lemma chooseSwapSurfaceFormat_loop_None:
  "chooseSwapSurfaceFormat_loop fs = None \<longleftrightarrow> preferredSurfaceFormat \<notin> set fs"
  by (induction fs) (auto simp: preferredSurfaceFormat_def)

text \<open>
  Claim C3. Surface-format selection: for every list of available formats that contains the
  preferred pair of format and colour space, at any position, \<open>chooseSwapSurfaceFormat\<close> returns
  exactly that pair; for every list that does not contain it, the function returns the first
  element of the list (written \<open>first # rest\<close>: a list that has a first element).
\<close>

theorem chooseSwapSurfaceFormat_preferred_else_first:
  "(preferredSurfaceFormat \<in> set availableFormats \<longrightarrow>
      chooseSwapSurfaceFormat availableFormats = Inr preferredSurfaceFormat)
   \<and> (preferredSurfaceFormat \<notin> set (first # rest) \<longrightarrow>
      chooseSwapSurfaceFormat (first # rest) = Inr first)"
proof
  show "preferredSurfaceFormat \<in> set availableFormats \<longrightarrow>
      chooseSwapSurfaceFormat availableFormats = Inr preferredSurfaceFormat"
  proof
    assume mem: "preferredSurfaceFormat \<in> set availableFormats"
    then obtain f where f: "chooseSwapSurfaceFormat_loop availableFormats = Some f"
      using chooseSwapSurfaceFormat_loop_None [of availableFormats] by (cases "chooseSwapSurfaceFormat_loop availableFormats") auto
    then have "f = preferredSurfaceFormat"
      using chooseSwapSurfaceFormat_loop_Some by blast
    with f show "chooseSwapSurfaceFormat availableFormats = Inr preferredSurfaceFormat"
      by (simp add: chooseSwapSurfaceFormat_def)
  qed
next
  show "preferredSurfaceFormat \<notin> set (first # rest) \<longrightarrow>
      chooseSwapSurfaceFormat (first # rest) = Inr first"
  proof
    assume "preferredSurfaceFormat \<notin> set (first # rest)"
    then have "chooseSwapSurfaceFormat_loop (first # rest) = None"
      using chooseSwapSurfaceFormat_loop_None [of "first # rest"] by blast
    then show "chooseSwapSurfaceFormat (first # rest) = Inr first"
      by (simp add: chooseSwapSurfaceFormat_def)
  qed
qed

text \<open>
  The first instance is the format list of the example device, with the preferred pair in second
  place; the second a list in which one element has the preferred format and another the
  preferred colour space, but none has both.
\<close>

theorem chooseSwapSurfaceFormat_preferred_else_first_witness:
  "preferredSurfaceFormat \<in> set (formats (getSwapChainSupport example_device))
   \<and> chooseSwapSurfaceFormat (formats (getSwapChainSupport example_device)) = Inr preferredSurfaceFormat
   \<and> preferredSurfaceFormat \<notin> set
       [\<lparr>format = VK_FORMAT_R8G8B8A8_SRGB, colorSpace = VK_COLOR_SPACE_SRGB_NONLINEAR_KHR\<rparr>,
        \<lparr>format = VK_FORMAT_B8G8R8A8_SRGB, colorSpace = VK_COLOR_SPACE_OTHER 7\<rparr>]
   \<and> chooseSwapSurfaceFormat
       [\<lparr>format = VK_FORMAT_R8G8B8A8_SRGB, colorSpace = VK_COLOR_SPACE_SRGB_NONLINEAR_KHR\<rparr>,
        \<lparr>format = VK_FORMAT_B8G8R8A8_SRGB, colorSpace = VK_COLOR_SPACE_OTHER 7\<rparr>]
       = Inr \<lparr>format = VK_FORMAT_R8G8B8A8_SRGB, colorSpace = VK_COLOR_SPACE_SRGB_NONLINEAR_KHR\<rparr>"
proof -
  have a: "preferredSurfaceFormat \<in> set (formats (getSwapChainSupport example_device))"
    by (simp add: example_device_def preferredSurfaceFormat_def)
  have b: "preferredSurfaceFormat \<notin> set
       [\<lparr>format = VK_FORMAT_R8G8B8A8_SRGB, colorSpace = VK_COLOR_SPACE_SRGB_NONLINEAR_KHR\<rparr>,
        \<lparr>format = VK_FORMAT_B8G8R8A8_SRGB, colorSpace = VK_COLOR_SPACE_OTHER 7\<rparr>]"
    by (simp add: preferredSurfaceFormat_def)
  from a b
    chooseSwapSurfaceFormat_preferred_else_first
      [of "formats (getSwapChainSupport example_device)"
          "\<lparr>format = VK_FORMAT_R8G8B8A8_SRGB, colorSpace = VK_COLOR_SPACE_SRGB_NONLINEAR_KHR\<rparr>"
          "[\<lparr>format = VK_FORMAT_B8G8R8A8_SRGB, colorSpace = VK_COLOR_SPACE_OTHER 7\<rparr>]"]
  show ?thesis by blast
qed


text \<open>
  Claim C9. \<open>chooseSwapSurfaceFormat\<close> requires a non-empty list: on every non-empty list it
  returns an element of the list; on the empty list the fallback read of the first element is
  outside the vector; so the function returns a value exactly when the list is non-empty.
\<close>

theorem chooseSwapSurfaceFormat_requires_nonempty:
  "(availableFormats \<noteq> [] \<longrightarrow>
      (\<exists>f. f \<in> set availableFormats \<and> chooseSwapSurfaceFormat availableFormats = Inr f))
   \<and> chooseSwapSurfaceFormat [] = Inl OutOfRange
   \<and> ((\<exists>f. chooseSwapSurfaceFormat availableFormats = Inr f) \<longleftrightarrow> availableFormats \<noteq> [])"
proof -
  have a: "\<exists>f. f \<in> set availableFormats \<and> chooseSwapSurfaceFormat availableFormats = Inr f"
    if "availableFormats \<noteq> []"
  proof (cases "chooseSwapSurfaceFormat_loop availableFormats")
    case None
    with that show ?thesis
      by (cases availableFormats) (simp_all add: chooseSwapSurfaceFormat_def)
  next
    case (Some f)
    have "f \<in> set availableFormats"
      using chooseSwapSurfaceFormat_loop_Some [OF Some] by blast
    moreover have "chooseSwapSurfaceFormat availableFormats = Inr f"
      using Some by (simp add: chooseSwapSurfaceFormat_def)
    ultimately show ?thesis by blast
  qed
  have b: "chooseSwapSurfaceFormat [] = Inl OutOfRange"
    by (simp add: chooseSwapSurfaceFormat_def)
  from a b show ?thesis by auto
qed

text \<open>A one-element list without the preferred pair, and the empty list.\<close>

theorem chooseSwapSurfaceFormat_requires_nonempty_witness:
  "[\<lparr>format = VK_FORMAT_B8G8R8A8_UNORM, colorSpace = VK_COLOR_SPACE_SRGB_NONLINEAR_KHR\<rparr>] \<noteq> []
   \<and> (\<exists>f. f \<in> set [\<lparr>format = VK_FORMAT_B8G8R8A8_UNORM, colorSpace = VK_COLOR_SPACE_SRGB_NONLINEAR_KHR\<rparr>]
        \<and> chooseSwapSurfaceFormat
            [\<lparr>format = VK_FORMAT_B8G8R8A8_UNORM, colorSpace = VK_COLOR_SPACE_SRGB_NONLINEAR_KHR\<rparr>] = Inr f)
   \<and> \<not> (\<exists>f. chooseSwapSurfaceFormat [] = Inr f)"
  using chooseSwapSurfaceFormat_requires_nonempty
    [of "[\<lparr>format = VK_FORMAT_B8G8R8A8_UNORM, colorSpace = VK_COLOR_SPACE_SRGB_NONLINEAR_KHR\<rparr>]"]
    chooseSwapSurfaceFormat_requires_nonempty [of "[]"]
  by simp

text \<open>
  Claim C4. Present-mode selection: for every list of available present modes that contains the
  immediate mode, \<open>chooseSwapPresentMode\<close> returns the immediate mode; for every list that does
  not contain it, the empty list and lists without FIFO included, it returns FIFO.
\<close>

theorem chooseSwapPresentMode_immediate_else_fifo:
  "(VK_PRESENT_MODE_IMMEDIATE_KHR \<in> set availablePresentModes \<longrightarrow>
      chooseSwapPresentMode availablePresentModes = VK_PRESENT_MODE_IMMEDIATE_KHR)
   \<and> (VK_PRESENT_MODE_IMMEDIATE_KHR \<notin> set availablePresentModes \<longrightarrow>
      chooseSwapPresentMode availablePresentModes = VK_PRESENT_MODE_FIFO_KHR)"
  by (induction availablePresentModes) auto

text \<open>
  A list with the immediate mode behind the mailbox mode; a list with the mailbox mode and an
  unrecognised mode, and neither immediate nor FIFO; the empty list.
\<close>

theorem chooseSwapPresentMode_immediate_else_fifo_witness:
  "VK_PRESENT_MODE_IMMEDIATE_KHR
     \<in> set [VK_PRESENT_MODE_MAILBOX_KHR, VK_PRESENT_MODE_IMMEDIATE_KHR, VK_PRESENT_MODE_FIFO_KHR]
   \<and> chooseSwapPresentMode
       [VK_PRESENT_MODE_MAILBOX_KHR, VK_PRESENT_MODE_IMMEDIATE_KHR, VK_PRESENT_MODE_FIFO_KHR]
       = VK_PRESENT_MODE_IMMEDIATE_KHR
   \<and> VK_PRESENT_MODE_IMMEDIATE_KHR \<notin> set [VK_PRESENT_MODE_MAILBOX_KHR, VK_PRESENT_MODE_OTHER 1000111000]
   \<and> chooseSwapPresentMode [VK_PRESENT_MODE_MAILBOX_KHR, VK_PRESENT_MODE_OTHER 1000111000]
       = VK_PRESENT_MODE_FIFO_KHR
   \<and> VK_PRESENT_MODE_IMMEDIATE_KHR \<notin> set []
   \<and> chooseSwapPresentMode [] = VK_PRESENT_MODE_FIFO_KHR"
  using chooseSwapPresentMode_immediate_else_fifo
      [of "[VK_PRESENT_MODE_MAILBOX_KHR, VK_PRESENT_MODE_IMMEDIATE_KHR, VK_PRESENT_MODE_FIFO_KHR]"]
    chooseSwapPresentMode_immediate_else_fifo
      [of "[VK_PRESENT_MODE_MAILBOX_KHR, VK_PRESENT_MODE_OTHER 1000111000]"]
    chooseSwapPresentMode_immediate_else_fifo [of "[]"]
  by simp

text \<open>
  The code's \<open>max lo (min hi x)\<close> against the specification's clamping: whatever is the clamped
  value is the value the code computes, and for a proper interval the code's value is the clamped
  value.
\<close>

lemma clamped_into_unique: "clamped_into lo hi x r \<Longrightarrow> r = max lo (min hi x)"
  by (auto simp: clamped_into_def min_def max_def split: if_splits)

lemma clamped_into_max_min: "lo \<le> hi \<Longrightarrow> clamped_into lo hi x (max lo (min hi x))"
  by (auto simp: clamped_into_def min_def max_def)

text \<open>
  Claim C5. Extent selection: for every capabilities value with a defined current extent (width
  other than \<open>UINT32_MAX\<close>), \<open>chooseSwapExtent\<close> returns the current extent verbatim, whatever
  the requested extent; for every capabilities value whose current width is \<open>UINT32_MAX\<close>, it
  returns the requested window extent clamped componentwise into the interval from
  \<open>minImageExtent\<close> to \<open>maxImageExtent\<close>: whatever extent is the clamped one is the extent
  returned, and there is one whenever the minimum does not exceed the maximum.
\<close>

theorem chooseSwapExtent_current_or_clamped:
  "(width (currentExtent caps) \<noteq> UINT32_MAX \<longrightarrow>
      chooseSwapExtent caps windowExtent = currentExtent caps)
   \<and> (width (currentExtent caps) = UINT32_MAX
        \<and> extent_clamped_into (minImageExtent caps) (maxImageExtent caps)
            windowExtent clamped \<longrightarrow>
      chooseSwapExtent caps windowExtent = clamped)
   \<and> (width (currentExtent caps) = UINT32_MAX
        \<and> width (minImageExtent caps) \<le> width (maxImageExtent caps)
        \<and> height (minImageExtent caps) \<le> height (maxImageExtent caps) \<longrightarrow>
      extent_clamped_into (minImageExtent caps) (maxImageExtent caps)
        windowExtent (chooseSwapExtent caps windowExtent))"
proof (intro conjI impI)
  assume "width (currentExtent caps) \<noteq> UINT32_MAX"
  then show "chooseSwapExtent caps windowExtent = currentExtent caps"
    by (simp add: chooseSwapExtent_def)
next
  assume a: "width (currentExtent caps) = UINT32_MAX
        \<and> extent_clamped_into (minImageExtent caps) (maxImageExtent caps)
            windowExtent clamped"
  then have w: "width clamped = max (width (minImageExtent caps))
                  (min (width (maxImageExtent caps)) (width windowExtent))"
    and h: "height clamped = max (height (minImageExtent caps))
                  (min (height (maxImageExtent caps)) (height windowExtent))"
    by (simp_all add: extent_clamped_into_def clamped_into_unique)
  from a have "width (chooseSwapExtent caps windowExtent) = width clamped"
    "height (chooseSwapExtent caps windowExtent) = height clamped"
    by (simp_all add: chooseSwapExtent_def Let_def w h)
  then show "chooseSwapExtent caps windowExtent = clamped"
    by (intro VkExtent2D.equality) simp_all
next
  assume "width (currentExtent caps) = UINT32_MAX
        \<and> width (minImageExtent caps) \<le> width (maxImageExtent caps)
        \<and> height (minImageExtent caps) \<le> height (maxImageExtent caps)"
  then show "extent_clamped_into (minImageExtent caps) (maxImageExtent caps)
        windowExtent (chooseSwapExtent caps windowExtent)"
    by (simp add: extent_clamped_into_def chooseSwapExtent_def Let_def clamped_into_max_min)
qed

text \<open>
  A surface with the current extent 800 by 600 and a window of 1024 by 768; a surface with the
  sentinel, bounds 1 to 4096 and a window of 5000 by 0.
\<close>

theorem chooseSwapExtent_current_or_clamped_witness:
  "width (currentExtent example_capabilities) \<noteq> UINT32_MAX
   \<and> chooseSwapExtent example_capabilities \<lparr>width = 1024, height = 768\<rparr> = \<lparr>width = 800, height = 600\<rparr>
   \<and> width (currentExtent example_sentinel_capabilities) = UINT32_MAX
   \<and> extent_clamped_into (minImageExtent example_sentinel_capabilities)
       (maxImageExtent example_sentinel_capabilities) \<lparr>width = 5000, height = 0\<rparr>
       \<lparr>width = 4096, height = 1\<rparr>
   \<and> chooseSwapExtent example_sentinel_capabilities \<lparr>width = 5000, height = 0\<rparr>
       = \<lparr>width = 4096, height = 1\<rparr>
   \<and> width (minImageExtent example_sentinel_capabilities)
       \<le> width (maxImageExtent example_sentinel_capabilities)
   \<and> height (minImageExtent example_sentinel_capabilities)
       \<le> height (maxImageExtent example_sentinel_capabilities)
   \<and> extent_clamped_into (minImageExtent example_sentinel_capabilities)
       (maxImageExtent example_sentinel_capabilities) \<lparr>width = 5000, height = 0\<rparr>
       (chooseSwapExtent example_sentinel_capabilities \<lparr>width = 5000, height = 0\<rparr>)"
proof -
  have a: "width (currentExtent example_capabilities) \<noteq> UINT32_MAX"
    by (simp add: example_capabilities_def UINT32_MAX_def)
  have b: "width (currentExtent example_sentinel_capabilities) = UINT32_MAX"
    by (simp add: example_sentinel_capabilities_def)
  have c: "extent_clamped_into (minImageExtent example_sentinel_capabilities)
       (maxImageExtent example_sentinel_capabilities) \<lparr>width = 5000, height = 0\<rparr>
       \<lparr>width = 4096, height = 1\<rparr>"
    by (simp add: example_sentinel_capabilities_def example_capabilities_def
        extent_clamped_into_def clamped_into_def)
  have d: "width (minImageExtent example_sentinel_capabilities)
       \<le> width (maxImageExtent example_sentinel_capabilities)"
    "height (minImageExtent example_sentinel_capabilities)
       \<le> height (maxImageExtent example_sentinel_capabilities)"
    by (simp_all add: example_sentinel_capabilities_def example_capabilities_def)
  have e: "currentExtent example_capabilities = \<lparr>width = 800, height = 600\<rparr>"
    by (simp add: example_capabilities_def)
  from a b c d e
    chooseSwapExtent_current_or_clamped
      [of example_capabilities "\<lparr>width = 1024, height = 768\<rparr>"]
    chooseSwapExtent_current_or_clamped
      [of example_sentinel_capabilities "\<lparr>width = 5000, height = 0\<rparr>" "\<lparr>width = 4096, height = 1\<rparr>"]
  show ?thesis by simp
qed

section \<open>Properties of the depth-format selection\<close>

text \<open>The position of the first supported candidate, and the format query in terms of it.\<close>

lemma first_supported_Some:
  "first_supported P cs = Some i \<Longrightarrow> i < length cs \<and> P (cs ! i) \<and> (\<forall>j<i. \<not> P (cs ! j))"
proof (induction cs arbitrary: i)
  case Nil
  then show ?case by simp
next
  case (Cons c cs)
  show ?case
  proof (cases "P c")
    case True
    with Cons.prems show ?thesis by simp
  next
    case False
    with Cons.prems obtain k where k: "first_supported P cs = Some k" "i = Suc k"
      by auto
    from Cons.IH [OF k(1)] have "k < length cs" "P (cs ! k)" "\<forall>j<k. \<not> P (cs ! j)" by blast+
    with False k(2) show ?thesis by (auto simp: less_Suc_eq_0_disj)
  qed
qed

lemma first_supported_None:
  "first_supported P cs = None \<longleftrightarrow> (\<forall>c \<in> set cs. \<not> P c)"
  by (induction cs) auto

lemma findSupportedFormat_first_supported:
  "findSupportedFormat dev cs tiling features
     = map_option (\<lambda>i. cs ! i) (first_supported (\<lambda>c. formatSupported dev c tiling features) cs)"
  by (induction cs) (auto simp: option.map_comp comp_def)

text \<open>
  Claim C6. \<open>findDepthFormat\<close> picks the first supported candidate of an ordered list: the two
  formats with a stencil component, followed by the depth-only format when no stencil is
  required. The chosen format is supported and no candidate before it is; nothing is chosen
  exactly when no candidate is supported; with a stencil required the chosen format has a stencil
  component; and with no stencil required, a chosen format with a stencil component has no
  supported candidate without stencil before it in the list.
\<close>

theorem findDepthFormat_first_supported:
  "findDepthFormat_candidates True = [VK_FORMAT_D32_SFLOAT_S8_UINT, VK_FORMAT_D24_UNORM_S8_UINT]
   \<and> findDepthFormat_candidates False
       = [VK_FORMAT_D32_SFLOAT_S8_UINT, VK_FORMAT_D24_UNORM_S8_UINT, VK_FORMAT_D32_SFLOAT]
   \<and> (findDepthFormat dev stencilRequired = Some chosen \<longrightarrow>
        (\<exists>i. i < length (findDepthFormat_candidates stencilRequired)
           \<and> chosen = findDepthFormat_candidates stencilRequired ! i
           \<and> formatSupported dev chosen VK_IMAGE_TILING_OPTIMAL
               VK_FORMAT_FEATURE_DEPTH_STENCIL_ATTACHMENT_BIT
           \<and> (\<forall>j<i. \<not> formatSupported dev (findDepthFormat_candidates stencilRequired ! j)
                         VK_IMAGE_TILING_OPTIMAL VK_FORMAT_FEATURE_DEPTH_STENCIL_ATTACHMENT_BIT)
           \<and> (\<forall>j<i. findDepthFormat_candidates stencilRequired ! j \<noteq> chosen)))
   \<and> (findDepthFormat dev stencilRequired = None \<longleftrightarrow>
        (\<forall>c \<in> set (findDepthFormat_candidates stencilRequired).
           \<not> formatSupported dev c VK_IMAGE_TILING_OPTIMAL
               VK_FORMAT_FEATURE_DEPTH_STENCIL_ATTACHMENT_BIT))
   \<and> (findDepthFormat dev True = Some chosen \<longrightarrow> hasStencilComponent chosen)
   \<and> (findDepthFormat dev False = Some chosen \<and> hasStencilComponent chosen
        \<and> i < length (findDepthFormat_candidates False)
        \<and> findDepthFormat_candidates False ! i = chosen \<longrightarrow>
        \<not> (\<exists>j<i. \<not> hasStencilComponent (findDepthFormat_candidates False ! j)
                \<and> formatSupported dev (findDepthFormat_candidates False ! j)
                     VK_IMAGE_TILING_OPTIMAL VK_FORMAT_FEATURE_DEPTH_STENCIL_ATTACHMENT_BIT))"
proof -
  let ?sup = "\<lambda>c. formatSupported dev c VK_IMAGE_TILING_OPTIMAL
                     VK_FORMAT_FEATURE_DEPTH_STENCIL_ATTACHMENT_BIT"
  have cT: "findDepthFormat_candidates True
              = [VK_FORMAT_D32_SFLOAT_S8_UINT, VK_FORMAT_D24_UNORM_S8_UINT]"
    and cF: "findDepthFormat_candidates False
              = [VK_FORMAT_D32_SFLOAT_S8_UINT, VK_FORMAT_D24_UNORM_S8_UINT, VK_FORMAT_D32_SFLOAT]"
    by (simp_all add: findDepthFormat_candidates_def)
  have pos: "\<exists>i. i < length (findDepthFormat_candidates sr)
           \<and> c = findDepthFormat_candidates sr ! i \<and> ?sup c
           \<and> (\<forall>j<i. \<not> ?sup (findDepthFormat_candidates sr ! j))
           \<and> (\<forall>j<i. findDepthFormat_candidates sr ! j \<noteq> c)"
    if "findDepthFormat dev sr = Some c" for sr c
  proof -
    from that obtain i where
      i: "first_supported ?sup (findDepthFormat_candidates sr) = Some i"
      and c: "c = findDepthFormat_candidates sr ! i"
      by (auto simp: findDepthFormat_def findSupportedFormat_first_supported)
    from first_supported_Some [OF i] c
    have "i < length (findDepthFormat_candidates sr)" "?sup c"
      "\<forall>j<i. \<not> ?sup (findDepthFormat_candidates sr ! j)"
      by simp_all
    moreover from this have "\<forall>j<i. findDepthFormat_candidates sr ! j \<noteq> c" by metis
    ultimately show ?thesis using c by blast
  qed
  have none: "findDepthFormat dev stencilRequired = None \<longleftrightarrow>
        (\<forall>c \<in> set (findDepthFormat_candidates stencilRequired). \<not> ?sup c)"
    by (simp add: findDepthFormat_def findSupportedFormat_first_supported first_supported_None)
  have stencil: "hasStencilComponent chosen" if "findDepthFormat dev True = Some chosen"
  proof -
    from pos [OF that] obtain i where "i < length (findDepthFormat_candidates True)"
      "chosen = findDepthFormat_candidates True ! i" by blast
    then show ?thesis by (auto simp: cT less_Suc_eq numeral_2_eq_2)
  qed
  have earlier: "\<not> (\<exists>j<i. \<not> hasStencilComponent (findDepthFormat_candidates False ! j)
                \<and> ?sup (findDepthFormat_candidates False ! j))"
    if "findDepthFormat dev False = Some chosen \<and> hasStencilComponent chosen
        \<and> i < length (findDepthFormat_candidates False)
        \<and> findDepthFormat_candidates False ! i = chosen"
  proof -
    from that pos [of False chosen] obtain k where
      k: "k < length (findDepthFormat_candidates False)"
        "chosen = findDepthFormat_candidates False ! k"
        "\<forall>j<k. \<not> ?sup (findDepthFormat_candidates False ! j)"
        "\<forall>j<k. findDepthFormat_candidates False ! j \<noteq> chosen"
      by blast
    from that have st: "hasStencilComponent chosen" by blast
    have d: "distinct (findDepthFormat_candidates False)" by (simp add: cF)
    from that have i: "i < length (findDepthFormat_candidates False)"
      "findDepthFormat_candidates False ! i = chosen"
      by blast+
    from nth_eq_iff_index_eq [OF d i(1) k(1)] i(2) k(2) have "i = k" by simp
    with k(3) show ?thesis by blast
  qed
  from cT cF pos [of stencilRequired chosen] none stencil earlier show ?thesis by blast
qed

text \<open>
  The example device supports the 24-bit depth-stencil format and the depth-only format: the
  first candidate is passed over and the second is chosen.
\<close>

theorem findDepthFormat_first_supported_witness:
  "findDepthFormat example_device False = Some VK_FORMAT_D24_UNORM_S8_UINT
   \<and> findDepthFormat example_device True = Some VK_FORMAT_D24_UNORM_S8_UINT
   \<and> hasStencilComponent VK_FORMAT_D24_UNORM_S8_UINT
   \<and> (1 :: nat) < length (findDepthFormat_candidates False)
   \<and> findDepthFormat_candidates False ! 1 = VK_FORMAT_D24_UNORM_S8_UINT
   \<and> \<not> (\<exists>j<1. \<not> hasStencilComponent (findDepthFormat_candidates False ! j)
            \<and> formatSupported example_device (findDepthFormat_candidates False ! j)
                 VK_IMAGE_TILING_OPTIMAL VK_FORMAT_FEATURE_DEPTH_STENCIL_ATTACHMENT_BIT)
   \<and> (\<exists>i. i < length (findDepthFormat_candidates False)
         \<and> VK_FORMAT_D24_UNORM_S8_UINT = findDepthFormat_candidates False ! i
         \<and> (\<forall>j<i. \<not> formatSupported example_device (findDepthFormat_candidates False ! j)
                       VK_IMAGE_TILING_OPTIMAL VK_FORMAT_FEATURE_DEPTH_STENCIL_ATTACHMENT_BIT))"
proof -
  have a: "findDepthFormat example_device False = Some VK_FORMAT_D24_UNORM_S8_UINT"
    "findDepthFormat example_device True = Some VK_FORMAT_D24_UNORM_S8_UINT"
    by (simp_all add: findDepthFormat_def findDepthFormat_candidates_def example_device_def)
  have b: "hasStencilComponent VK_FORMAT_D24_UNORM_S8_UINT"
    "(1 :: nat) < length (findDepthFormat_candidates False)"
    "findDepthFormat_candidates False ! 1 = VK_FORMAT_D24_UNORM_S8_UINT"
    by (simp_all add: findDepthFormat_candidates_def)
  from a b
    findDepthFormat_first_supported
      [of example_device False VK_FORMAT_D24_UNORM_S8_UINT 1]
  show ?thesis by blast
qed

section \<open>Properties of the frame cycle\<close>




lemma acquireNextImage_this:
  "fst (snd (snd (acquireNextImage dev answer s i))) = s"
  by (simp add: acquireNextImage_def Let_def)

lemma acquireNextImage_returns:
  assumes "unat (currentFrame s) < length (inFlightFences s)"
    and "unat (currentFrame s) < length (imageAvailableSemaphores s)"
  shows "fst (acquireNextImage dev answer s i) = Inr (fst answer)"
    and "fst (snd (acquireNextImage dev answer s i))
           = (case snd answer of None \<Rightarrow> i | Some written \<Rightarrow> written)"
    and "snd (snd (snd (acquireNextImage dev answer s i)))
           = [WaitForFences (device_handle dev) [inFlightFences s ! unat (currentFrame s)] True UINT64_MAX,
              AcquireNextImageKHR (device_handle dev) (swapchain s) UINT64_MAX
                (imageAvailableSemaphores s ! unat (currentFrame s)) VK_NULL_HANDLE]"
  using assms by (simp_all add: acquireNextImage_def Let_def)





lemma submitCommandBuffers_returns:
  assumes "unat i < length (imagesInFlight s)"
    and "unat (currentFrame s) < length (inFlightFences s)"
    and "unat (currentFrame s) < length (imageAvailableSemaphores s)"
    and "unat (currentFrame s) < length (renderFinishedSemaphores s)"
    and "N \<noteq> 0"
  shows "fst (submitCommandBuffers N dev a s b i) =
           (if queueSubmit_result a = VK_SUCCESS then Inr (queuePresent_result a)
            else Inl (RuntimeError ''failed to submit draw command buffer!''))"
  using assms by (simp add: submitCommandBuffers_def Let_def)





text \<open>
  \<open>createSyncObjects\<close> sizes the vectors as \<open>slots_allocated\<close> says and leaves the slot
  counter, the image count and the attachment as they are.
\<close>

lemma createSyncObjects_loop_keeps:
  "createSyncObjects_loop sa slots s = Inr s' \<Longrightarrow>
     length (imageAvailableSemaphores s') = length (imageAvailableSemaphores s)
     \<and> length (renderFinishedSemaphores s') = length (renderFinishedSemaphores s)
     \<and> length (inFlightFences s') = length (inFlightFences s)
     \<and> imagesInFlight s' = imagesInFlight s
     \<and> imageCount s' = imageCount s
     \<and> swapchainAttachment s' = swapchainAttachment s
     \<and> currentFrame s' = currentFrame s"
proof (induction slots arbitrary: s)
  case Nil
  then show ?case by simp
next
  case (Cons i slots)
  from Cons.prems obtain s1 where
    s1: "createSyncObjects_loop sa slots s1 = Inr s'"
    and k: "length (imageAvailableSemaphores s1) = length (imageAvailableSemaphores s)"
      "length (renderFinishedSemaphores s1) = length (renderFinishedSemaphores s)"
      "length (inFlightFences s1) = length (inFlightFences s)"
      "imagesInFlight s1 = imagesInFlight s" "imageCount s1 = imageCount s"
      "swapchainAttachment s1 = swapchainAttachment s"
      "currentFrame s1 = currentFrame s"
    by (auto simp: Let_def split: prod.splits if_splits)
  from Cons.IH [OF s1] k show ?case by simp
qed

lemma length_resize: "length (resize xs n v) = n"
  by (simp add: resize_def)

lemma createSyncObjects_keeps:
  assumes "createSyncObjects N sa s = Inr s'"
  shows "slots_allocated N s' \<and> currentFrame s' = currentFrame s \<and> imageCount s' = imageCount s
         \<and> swapchainAttachment s' = swapchainAttachment s"
  using createSyncObjects_loop_keeps [OF assms [unfolded createSyncObjects_def Let_def]]
  by (simp add: slots_allocated_def length_resize)

text \<open>The calls of \<open>submitCommandBuffers\<close> in order, and the fence table after the call.\<close>

lemma submitCommandBuffers_calls:
  assumes "unat i < length (imagesInFlight s)"
    and "unat (currentFrame s) < length (inFlightFences s)"
    and "unat (currentFrame s) < length (imageAvailableSemaphores s)"
    and "unat (currentFrame s) < length (renderFinishedSemaphores s)"
    and "N \<noteq> 0"
  shows "\<exists>submitInfo presentInfo.
    snd (snd (submitCommandBuffers N dev a s b i)) =
      (if imagesInFlight s ! unat i \<noteq> VK_NULL_HANDLE
       then [WaitForFences (device_handle dev) [imagesInFlight s ! unat i] True UINT64_MAX]
       else [])
      @ [ResetFences (device_handle dev) [inFlightFences s ! unat (currentFrame s)],
         QueueSubmit (graphicsQueue dev) submitInfo (inFlightFences s ! unat (currentFrame s))]
      @ (if queueSubmit_result a = VK_SUCCESS
         then [QueuePresentKHR (presentQueue dev) presentInfo]
         else [])"
  using assms by (simp add: submitCommandBuffers_def Let_def)

lemma submitCommandBuffers_table:
  assumes "unat i < length (imagesInFlight s)"
    and "unat (currentFrame s) < length (inFlightFences s)"
    and "unat (currentFrame s) < length (imageAvailableSemaphores s)"
    and "unat (currentFrame s) < length (renderFinishedSemaphores s)"
    and "N \<noteq> 0"
  shows "imagesInFlight (fst (snd (submitCommandBuffers N dev a s b i)))
           = (imagesInFlight s)[unat i := inFlightFences s ! unat (currentFrame s)]"
  using assms by (simp add: submitCommandBuffers_def Let_def)

lemma slots_allocated_in_range:
  assumes "slots_allocated N s" and "currentFrame s < N" and "i < imageCount s"
  shows "unat i < length (imagesInFlight s)"
    and "unat (currentFrame s) < length (inFlightFences s)"
    and "unat (currentFrame s) < length (imageAvailableSemaphores s)"
    and "unat (currentFrame s) < length (renderFinishedSemaphores s)"
    and "N \<noteq> 0"
  using assms by (auto simp: slots_allocated_def word_less_nat_alt)






text \<open>
  Claim C2, as amended. For every call of \<open>submitCommandBuffers\<close> on an allocated swapchain with
  the image index in range: if the fence table holds a fence for the image (any entry other than
  the null handle, so in particular a fence recorded by a different frame slot), the first call
  into the graphics API is an unbounded wait for that fence; the table entry of the image becomes
  the fence of the current slot; that fence is reset and then passed to the submission to the
  graphics queue; if the submission succeeds the present request follows and its status is
  returned, and if the submission fails the call throws a runtime error without presenting.
\<close>

theorem submitCommandBuffers_protocol:
  assumes "slots_allocated MAX_FRAMES_IN_FLIGHT this"
    and "currentFrame this < MAX_FRAMES_IN_FLIGHT"
    and "imageIndex < imageCount this"
  shows
    "\<exists>submitInfo presentInfo.
       snd (snd (submitCommandBuffers MAX_FRAMES_IN_FLIGHT dev answers this buffers imageIndex)) =
         (if imagesInFlight this ! unat imageIndex \<noteq> VK_NULL_HANDLE
          then [WaitForFences (device_handle dev) [imagesInFlight this ! unat imageIndex]
                  True UINT64_MAX]
          else [])
         @ [ResetFences (device_handle dev) [inFlightFences this ! unat (currentFrame this)],
            QueueSubmit (graphicsQueue dev) submitInfo
              (inFlightFences this ! unat (currentFrame this))]
         @ (if queueSubmit_result answers = VK_SUCCESS
            then [QueuePresentKHR (presentQueue dev) presentInfo]
            else [])
       \<and> (imagesInFlight this ! unat imageIndex \<noteq> VK_NULL_HANDLE
            \<and> imagesInFlight this ! unat imageIndex \<noteq> inFlightFences this ! unat (currentFrame this)
          \<longrightarrow> hd (snd (snd (submitCommandBuffers MAX_FRAMES_IN_FLIGHT dev answers this buffers
                              imageIndex)))
              = WaitForFences (device_handle dev) [imagesInFlight this ! unat imageIndex]
                  True UINT64_MAX)
       \<and> imagesInFlight
           (fst (snd (submitCommandBuffers MAX_FRAMES_IN_FLIGHT dev answers this buffers imageIndex)))
           = (imagesInFlight this)
               [unat imageIndex := inFlightFences this ! unat (currentFrame this)]
       \<and> fst (submitCommandBuffers MAX_FRAMES_IN_FLIGHT dev answers this buffers imageIndex)
           = (if queueSubmit_result answers = VK_SUCCESS
              then Inr (queuePresent_result answers)
              else Inl (RuntimeError ''failed to submit draw command buffer!''))"
proof -
  note r = slots_allocated_in_range [OF assms]
  from submitCommandBuffers_calls [OF r, of dev answers buffers]
  obtain submitInfo presentInfo where
    calls: "snd (snd (submitCommandBuffers MAX_FRAMES_IN_FLIGHT dev answers this buffers imageIndex)) =
         (if imagesInFlight this ! unat imageIndex \<noteq> VK_NULL_HANDLE
          then [WaitForFences (device_handle dev) [imagesInFlight this ! unat imageIndex]
                  True UINT64_MAX]
          else [])
         @ [ResetFences (device_handle dev) [inFlightFences this ! unat (currentFrame this)],
            QueueSubmit (graphicsQueue dev) submitInfo
              (inFlightFences this ! unat (currentFrame this))]
         @ (if queueSubmit_result answers = VK_SUCCESS
            then [QueuePresentKHR (presentQueue dev) presentInfo]
            else [])"
    by blast
  have first: "hd (snd (snd (submitCommandBuffers MAX_FRAMES_IN_FLIGHT dev answers this buffers
                              imageIndex)))
              = WaitForFences (device_handle dev) [imagesInFlight this ! unat imageIndex]
                  True UINT64_MAX"
    if "imagesInFlight this ! unat imageIndex \<noteq> VK_NULL_HANDLE"
    using that by (simp add: calls)
  note table = submitCommandBuffers_table [OF r, of dev answers buffers]
  note ret = submitCommandBuffers_returns [OF r, of dev answers buffers]
  from calls first table ret show ?thesis by blast
qed

text \<open>
  The fence table of the example holds fence 500 for image 1 and the current slot is slot 1,
  whose fence is 501: image 1 was last used by the other frame slot.
\<close>

theorem submitCommandBuffers_protocol_witness:
  "slots_allocated 2 example_swapchain_busy
   \<and> currentFrame example_swapchain_busy < 2
   \<and> 1 < imageCount example_swapchain_busy
   \<and> imagesInFlight example_swapchain_busy ! unat (1 :: uint32_t) = 500
   \<and> inFlightFences example_swapchain_busy ! unat (currentFrame example_swapchain_busy) = 501
   \<and> (\<exists>submitInfo presentInfo.
        snd (snd (submitCommandBuffers 2 example_device example_submit_ok example_swapchain_busy
                    [700] 1))
          = [WaitForFences 100 [500] True UINT64_MAX,
             ResetFences 100 [501],
             QueueSubmit 102 submitInfo 501,
             QueuePresentKHR 103 presentInfo])
   \<and> hd (snd (snd (submitCommandBuffers 2 example_device example_submit_ok example_swapchain_busy
                      [700] 1)))
       = WaitForFences 100 [500] True UINT64_MAX
   \<and> imagesInFlight
       (fst (snd (submitCommandBuffers 2 example_device example_submit_ok example_swapchain_busy
                    [700] 1)))
       = [0, 501, 0]
   \<and> fst (submitCommandBuffers 2 example_device example_submit_ok example_swapchain_busy [700] 1)
       = Inr VK_ERROR_OUT_OF_DATE_KHR"
proof -
  have h: "slots_allocated 2 example_swapchain_busy"
    "currentFrame example_swapchain_busy < 2"
    "1 < imageCount example_swapchain_busy"
    by (simp_all add: slots_allocated_def example_swapchain_busy_def example_swapchain_def)
  have v: "imagesInFlight example_swapchain_busy ! unat (1 :: uint32_t) = 500"
    "inFlightFences example_swapchain_busy ! unat (currentFrame example_swapchain_busy) = 501"
    "imagesInFlight example_swapchain_busy = [0, 500, 0]"
    by (simp_all add: example_swapchain_busy_def example_swapchain_def)
  have d: "device_handle example_device = 100" "graphicsQueue example_device = 102"
    "presentQueue example_device = 103"
    by (simp_all add: example_device_def)
  have a: "queueSubmit_result example_submit_ok = VK_SUCCESS"
    "queuePresent_result example_submit_ok = VK_ERROR_OUT_OF_DATE_KHR"
    by (simp_all add: example_submit_ok_def)
  from submitCommandBuffers_protocol [OF h, of example_device example_submit_ok "[700]"]
  show ?thesis
    unfolding v(1,2) d a
    by (simp add: h v VK_NULL_HANDLE_def)
qed

text \<open>
  Claim C2 as stated has every call return the status of the present request. With a failed
  queue submission the call returns nothing: it throws.
\<close>

theorem submitCommandBuffers_status_counterexample:
  "fst (submitCommandBuffers 2 example_device example_submit_failed example_swapchain_busy [700] 1)
     \<noteq> Inr (queuePresent_result example_submit_failed)
   \<and> fst (submitCommandBuffers 2 example_device example_submit_failed example_swapchain_busy [700] 1)
     = Inl (RuntimeError ''failed to submit draw command buffer!'')"
  by (simp add: submitCommandBuffers_def example_swapchain_busy_def example_swapchain_def
      example_submit_failed_def VK_NULL_HANDLE_def Let_def)

text \<open>
  Claim C10. \<open>acquireNextImage\<close> changes no member of the swapchain: the object after the call
  is the object before it, with its slot counter, fence table, semaphore and fence vectors,
  extent, formats, image count and attachment. Its outputs are the status of the acquisition and
  the image index written through the pointer.
\<close>

theorem acquireNextImage_keeps_state:
  "fst (snd (snd (acquireNextImage dev answer this imageIndex))) = this
   \<and> (unat (currentFrame this) < length (inFlightFences this)
        \<and> unat (currentFrame this) < length (imageAvailableSemaphores this) \<longrightarrow>
      fst (acquireNextImage dev answer this imageIndex) = Inr (fst answer)
      \<and> fst (snd (acquireNextImage dev answer this imageIndex))
          = (case snd answer of None \<Rightarrow> imageIndex | Some written \<Rightarrow> written))"
  using acquireNextImage_this [of dev answer this imageIndex]
    acquireNextImage_returns(1,2) [of this dev answer imageIndex]
  by blast

text \<open>An acquisition that reports a suboptimal surface and writes image index 2.\<close>

theorem acquireNextImage_keeps_state_witness:
  "fst (snd (snd (acquireNextImage example_device (VK_SUBOPTIMAL_KHR, Some 2) example_swapchain_busy 0)))
     = example_swapchain_busy
   \<and> unat (currentFrame example_swapchain_busy) < length (inFlightFences example_swapchain_busy)
   \<and> unat (currentFrame example_swapchain_busy)
       < length (imageAvailableSemaphores example_swapchain_busy)
   \<and> fst (acquireNextImage example_device (VK_SUBOPTIMAL_KHR, Some 2) example_swapchain_busy 0)
       = Inr VK_SUBOPTIMAL_KHR
   \<and> fst (snd (acquireNextImage example_device (VK_SUBOPTIMAL_KHR, Some 2) example_swapchain_busy 0))
       = 2"
proof -
  have h: "unat (currentFrame example_swapchain_busy) < length (inFlightFences example_swapchain_busy)"
    "unat (currentFrame example_swapchain_busy)
       < length (imageAvailableSemaphores example_swapchain_busy)"
    by (simp_all add: example_swapchain_busy_def example_swapchain_def)
  from h acquireNextImage_keeps_state
    [of example_device "(VK_SUBOPTIMAL_KHR, Some 2)" example_swapchain_busy 0]
  show ?thesis by simp
qed

section \<open>Properties of the construction\<close>

text \<open>
  The image count that \<open>init\<close> requests, in \<open>uint32_t\<close> arithmetic and, when the increment
  does not wrap, in natural numbers; where the request shows in the calls; and how \<open>init\<close> ends
  once the chain is created.
\<close>

lemma init_imageCount_min:
  "init_imageCount caps =
     (if maxImageCount caps > 0 then min (minImageCount caps + 1) (maxImageCount caps)
      else minImageCount caps + 1)"
  by (auto simp: init_imageCount_def Let_def min_def)

lemma init_imageCount_unat:
  assumes "minImageCount caps \<noteq> UINT32_MAX"
  shows "unat (init_imageCount caps) =
     (if 0 < unat (maxImageCount caps)
      then min (unat (minImageCount caps) + 1) (unat (maxImageCount caps))
      else unat (minImageCount caps) + 1)"
proof -
  have "minImageCount caps + 1 \<noteq> 0"
  proof
    assume "minImageCount caps + 1 = 0"
    then have "minImageCount caps = - 1" by (simp only: eq_neg_iff_add_eq_0)
    with assms show False by (simp add: UINT32_MAX_def)
  qed
  then have suc: "unat (minImageCount caps + 1) = unat (minImageCount caps) + 1"
    using unatSuc [of "minImageCount caps"] by (simp add: add.commute)
  have m: "unat (min (minImageCount caps + 1) (maxImageCount caps))
           = min (unat (minImageCount caps + 1)) (unat (maxImageCount caps))"
    by (simp add: min_def word_le_nat_alt)
  have z: "0 < maxImageCount caps \<longleftrightarrow> 0 < unat (maxImageCount caps)"
    by (simp add: word_less_nat_alt)
  show ?thesis
    unfolding init_imageCount_min z using m suc by simp
qed

lemma init_requests:
  assumes "snd (init dev ia s we) \<noteq> []"
  shows "\<exists>ci. hd (snd (init dev ia s we)) = CreateSwapchainKHR (device_handle dev) ci
           \<and> ci_minImageCount ci = init_imageCount (capabilities (getSwapChainSupport dev))"
  using assms
  by (auto simp: init_def init_createInfo_def getAttachmentProperties_def Let_def
      split: sum.splits option.splits if_splits)

lemma init_no_object: "fst (init dev ia s we) \<noteq> Inr s'"
  by (auto simp: init_def getAttachmentProperties_def Let_def
      split: sum.splits option.splits if_splits)

lemma init_created:
  assumes "snd (init dev ia s we) \<noteq> []" and "createSwapchain_result ia = VK_SUCCESS"
  shows "fst (init dev ia s we) = Inl DanglingReference"
  using assms
  by (auto simp: init_def getAttachmentProperties_def Let_def
      split: sum.splits option.splits if_splits)

lemma init_stops:
  "\<exists>e calls. init dev ia s we = (Inl e, calls)"
proof (cases "init dev ia s we")
  case (Pair r calls)
  with init_no_object [of dev ia s we] have "r \<noteq> Inr s'" for s' by simp
  then obtain e where "r = Inl e" by (cases r) auto
  with Pair show ?thesis by simp
qed

lemma EngineSwapChain_new_no_object:
  "fst (EngineSwapChain_new N c dev ia sa we) \<noteq> Inr s'"
  using init_stops [of dev ia "EngineSwapChain_members None c" we]
  by (auto simp: EngineSwapChain_new_def)

lemma EngineSwapChain_new_previous_no_object:
  "fst (EngineSwapChain_new_previous N c dev ia sa we previous) \<noteq> Inr s'"
  using init_stops [of dev ia "EngineSwapChain_members previous c" we]
  by (auto simp: EngineSwapChain_new_previous_def)

text \<open>
  Claim C7. For every capabilities value the image count that construction requests is
  \<open>min (minImageCount + 1) maxImageCount\<close> when \<open>maxImageCount > 0\<close> and \<open>minImageCount + 1\<close>
  when \<open>maxImageCount = 0\<close>, and it is the \<open>minImageCount\<close> of the create info in the first
  call that \<open>init\<close> makes; with \<open>minImageCount = 2\<close> and \<open>maxImageCount = 0\<close> the request is 3.
  The claim goes on to an object with an image count of at least 3 and an attachment of that many
  entries. The code does not get there: once the chain is created, \<open>init\<close> reads through the
  reference to the destroyed local of \<open>getAttachmentProperties\<close>, which is undefined behaviour,
  so neither \<open>init\<close> nor a constructor ever yields an object.
\<close>

theorem init_requested_image_count:
  "init_imageCount caps =
     (if maxImageCount caps > 0 then min (minImageCount caps + 1) (maxImageCount caps)
      else minImageCount caps + 1)
   \<and> (minImageCount caps \<noteq> UINT32_MAX \<longrightarrow>
        unat (init_imageCount caps) =
          (if 0 < unat (maxImageCount caps)
           then min (unat (minImageCount caps) + 1) (unat (maxImageCount caps))
           else unat (minImageCount caps) + 1))
   \<and> (snd (init dev ia this windowExtent) \<noteq> [] \<longrightarrow>
        (\<exists>createInfo.
           hd (snd (init dev ia this windowExtent))
             = CreateSwapchainKHR (device_handle dev) createInfo
           \<and> ci_minImageCount createInfo
               = init_imageCount (capabilities (getSwapChainSupport dev))))
   \<and> (minImageCount (capabilities (getSwapChainSupport dev)) = 2
        \<and> maxImageCount (capabilities (getSwapChainSupport dev)) = 0
        \<and> snd (init dev ia this windowExtent) \<noteq> [] \<longrightarrow>
        (\<exists>createInfo.
           hd (snd (init dev ia this windowExtent))
             = CreateSwapchainKHR (device_handle dev) createInfo
           \<and> ci_minImageCount createInfo = 3))
   \<and> (snd (init dev ia this windowExtent) \<noteq> [] \<and> createSwapchain_result ia = VK_SUCCESS \<longrightarrow>
        fst (init dev ia this windowExtent) = Inl DanglingReference)
   \<and> fst (init dev ia this windowExtent) \<noteq> Inr initialised
   \<and> fst (EngineSwapChain_new MAX_FRAMES_IN_FLIGHT currentFrame_initial dev ia sa windowExtent)
       \<noteq> Inr created
   \<and> fst (EngineSwapChain_new_previous MAX_FRAMES_IN_FLIGHT currentFrame_initial dev ia sa
             windowExtent previous)
       \<noteq> Inr recreated"
proof (intro conjI impI)
  show "init_imageCount caps =
     (if maxImageCount caps > 0 then min (minImageCount caps + 1) (maxImageCount caps)
      else minImageCount caps + 1)"
    by (rule init_imageCount_min)
next
  assume "minImageCount caps \<noteq> UINT32_MAX"
  then show "unat (init_imageCount caps) =
          (if 0 < unat (maxImageCount caps)
           then min (unat (minImageCount caps) + 1) (unat (maxImageCount caps))
           else unat (minImageCount caps) + 1)"
    by (rule init_imageCount_unat)
next
  assume "snd (init dev ia this windowExtent) \<noteq> []"
  then show "\<exists>createInfo.
           hd (snd (init dev ia this windowExtent))
             = CreateSwapchainKHR (device_handle dev) createInfo
           \<and> ci_minImageCount createInfo
               = init_imageCount (capabilities (getSwapChainSupport dev))"
    by (rule init_requests)
next
  assume a: "minImageCount (capabilities (getSwapChainSupport dev)) = 2
        \<and> maxImageCount (capabilities (getSwapChainSupport dev)) = 0
        \<and> snd (init dev ia this windowExtent) \<noteq> []"
  then have "init_imageCount (capabilities (getSwapChainSupport dev)) = 3"
    by (simp add: init_imageCount_def)
  with a init_requests [of dev ia this windowExtent]
  show "\<exists>createInfo.
           hd (snd (init dev ia this windowExtent))
             = CreateSwapchainKHR (device_handle dev) createInfo
           \<and> ci_minImageCount createInfo = 3"
    by auto
next
  assume "snd (init dev ia this windowExtent) \<noteq> [] \<and> createSwapchain_result ia = VK_SUCCESS"
  then show "fst (init dev ia this windowExtent) = Inl DanglingReference"
    using init_created by blast
next
  show "fst (init dev ia this windowExtent) \<noteq> Inr initialised"
    by (rule init_no_object)
next
  show "fst (EngineSwapChain_new MAX_FRAMES_IN_FLIGHT currentFrame_initial dev ia sa windowExtent)
       \<noteq> Inr created"
    by (rule EngineSwapChain_new_no_object)
next
  show "fst (EngineSwapChain_new_previous MAX_FRAMES_IN_FLIGHT currentFrame_initial dev ia sa
             windowExtent previous)
       \<noteq> Inr recreated"
    by (rule EngineSwapChain_new_previous_no_object)
qed

lemma example_init_calls:
  "snd (init example_device example_init_answers (EngineSwapChain_members None 0)
          \<lparr>width = 800, height = 600\<rparr>) \<noteq> []"
  by (simp add: init_def example_device_def example_init_answers_def EngineSwapChain_members_def
      chooseSwapSurfaceFormat_def findDepthFormat_def findDepthFormat_candidates_def
      getAttachmentProperties_def Let_def)

text \<open>
  Capabilities with minimum 2 and maximum 2 (the request is capped at 2); the example device with
  minimum 2 and no maximum, a window of 800 by 600 and a presentation subsystem that creates the
  chain with three images: 3 images are requested and the construction ends in the read through
  the dangling reference.
\<close>

theorem init_requested_image_count_witness:
  "minImageCount (example_capabilities\<lparr>maxImageCount := 2\<rparr>) \<noteq> UINT32_MAX
   \<and> init_imageCount (example_capabilities\<lparr>maxImageCount := 2\<rparr>) = 2
   \<and> unat (init_imageCount (example_capabilities\<lparr>maxImageCount := 2\<rparr>)) = 2
   \<and> snd (init example_device example_init_answers (EngineSwapChain_members None 0)
          \<lparr>width = 800, height = 600\<rparr>) \<noteq> []
   \<and> minImageCount (capabilities (getSwapChainSupport example_device)) = 2
   \<and> maxImageCount (capabilities (getSwapChainSupport example_device)) = 0
   \<and> createSwapchain_result example_init_answers = VK_SUCCESS
   \<and> (\<exists>createInfo.
         hd (snd (init example_device example_init_answers (EngineSwapChain_members None 0)
                    \<lparr>width = 800, height = 600\<rparr>))
           = CreateSwapchainKHR 100 createInfo
         \<and> ci_minImageCount createInfo = 3)
   \<and> fst (init example_device example_init_answers (EngineSwapChain_members None 0)
            \<lparr>width = 800, height = 600\<rparr>) = Inl DanglingReference
   \<and> fst (EngineSwapChain_new 2 0 example_device example_init_answers example_sync_answers
            \<lparr>width = 800, height = 600\<rparr>) = Inl DanglingReference"
proof -
  have caps: "minImageCount (capabilities (getSwapChainSupport example_device)) = 2"
    "maxImageCount (capabilities (getSwapChainSupport example_device)) = 0"
    by (simp_all add: example_device_def example_capabilities_def)
  have d: "device_handle example_device = 100" by (simp add: example_device_def)
  have ok: "createSwapchain_result example_init_answers = VK_SUCCESS"
    by (simp add: example_init_answers_def)
  have e: "minImageCount (example_capabilities\<lparr>maxImageCount := 2\<rparr>) \<noteq> UINT32_MAX"
    "minImageCount (example_capabilities\<lparr>maxImageCount := 2\<rparr>) = 2"
    "maxImageCount (example_capabilities\<lparr>maxImageCount := 2\<rparr>) = 2"
    by (simp_all add: example_capabilities_def UINT32_MAX_def)
  note t = init_requested_image_count
    [where dev = example_device and ia = example_init_answers
       and this = "EngineSwapChain_members None 0"
       and windowExtent = "\<lparr>width = 800, height = 600\<rparr>"
       and MAX_FRAMES_IN_FLIGHT = 2 and currentFrame_initial = 0 and sa = example_sync_answers
       and previous = None and initialised = example_swapchain and created = example_swapchain
       and recreated = example_swapchain]
  from t [where caps = "example_capabilities\<lparr>maxImageCount := 2\<rparr>"] e
  have f: "init_imageCount (example_capabilities\<lparr>maxImageCount := 2\<rparr>) = 2"
    "unat (init_imageCount (example_capabilities\<lparr>maxImageCount := 2\<rparr>)) = 2"
    by simp_all
  from t [where caps = example_capabilities] example_init_calls caps ok
  have g: "\<exists>createInfo.
         hd (snd (init example_device example_init_answers (EngineSwapChain_members None 0)
                    \<lparr>width = 800, height = 600\<rparr>))
           = CreateSwapchainKHR (device_handle example_device) createInfo
         \<and> ci_minImageCount createInfo = 3"
    and h: "fst (init example_device example_init_answers (EngineSwapChain_members None 0)
            \<lparr>width = 800, height = 600\<rparr>) = Inl DanglingReference"
    by blast+
  from h have i: "fst (EngineSwapChain_new 2 0 example_device example_init_answers
            example_sync_answers \<lparr>width = 800, height = 600\<rparr>) = Inl DanglingReference"
    by (cases "init example_device example_init_answers (EngineSwapChain_members None 0)
                 \<lparr>width = 800, height = 600\<rparr>")
       (simp add: EngineSwapChain_new_def)
  from e(1) f example_init_calls caps ok g h i d show ?thesis by simp
qed

section \<open>Properties of the material\<close>

text \<open>
  Claim C8. For every payload type and value, \<open>writePushConstants\<close> records exactly one
  push-constant write: with the material's pipeline layout, the stage flags of both the vertex
  and the fragment stage, offset 0 and the size of the payload type. The size declared at
  construction is not consulted: the recorded command is the same whatever \<open>pushConstSize\<close> is,
  and the operation has no way to signal a violation.
\<close>

theorem writePushConstants_unchecked:
  "writePushConstants sizeof_T this cmdBuf data
     = cmdBuf @ [CmdPushConstants (pipelineLayout this)
                   (VK_SHADER_STAGE_VERTEX_BIT OR VK_SHADER_STAGE_FRAGMENT_BIT) 0
                   (ucast sizeof_T) data]
   \<and> length (writePushConstants sizeof_T this cmdBuf data) = Suc (length cmdBuf)
   \<and> (VK_SHADER_STAGE_VERTEX_BIT OR VK_SHADER_STAGE_FRAGMENT_BIT) AND VK_SHADER_STAGE_VERTEX_BIT
       = VK_SHADER_STAGE_VERTEX_BIT
   \<and> (VK_SHADER_STAGE_VERTEX_BIT OR VK_SHADER_STAGE_FRAGMENT_BIT) AND VK_SHADER_STAGE_FRAGMENT_BIT
       = VK_SHADER_STAGE_FRAGMENT_BIT
   \<and> (unat sizeof_T < 2 ^ 32 \<longrightarrow> unat (ucast sizeof_T :: uint32_t) = unat sizeof_T)
   \<and> writePushConstants sizeof_T
        (this\<lparr>materialCreateInfo := (materialCreateInfo this)\<lparr>pushConstSize := declared\<rparr>\<rparr>)
        cmdBuf data
       = writePushConstants sizeof_T this cmdBuf data"
proof -
  have "unat (ucast sizeof_T :: uint32_t) = unat sizeof_T" if "unat sizeof_T < 2 ^ 32"
    using that by (simp add: unsigned_ucast_eq take_bit_nat_eq_self)
  then show ?thesis
    by (simp add: writePushConstants_def VK_SHADER_STAGE_VERTEX_BIT_def
        VK_SHADER_STAGE_FRAGMENT_BIT_def)
qed

text \<open>A payload of 128 bytes written through a material that declared 64 bytes.\<close>

theorem writePushConstants_unchecked_witness:
  "unat (128 :: size_t) < 2 ^ 32
   \<and> pushConstSize (materialCreateInfo example_material) = 64
   \<and> writePushConstants 128 example_material [CmdBindPipeline 604] example_payload
       = [CmdBindPipeline 604, CmdPushConstants 603 0x11 0 128 example_payload]
   \<and> unat (ucast (128 :: size_t) :: uint32_t) = 128"
proof -
  have a: "unat (128 :: size_t) < 2 ^ 32" by simp
  have b: "pushConstSize (materialCreateInfo example_material) = 64"
    "pipelineLayout example_material = 603"
    by (simp_all add: example_material_def)
  have c: "VK_SHADER_STAGE_VERTEX_BIT OR VK_SHADER_STAGE_FRAGMENT_BIT = (0x11 :: uint32_t)"
    by (simp add: VK_SHADER_STAGE_VERTEX_BIT_def VK_SHADER_STAGE_FRAGMENT_BIT_def)
  from a b c
    writePushConstants_unchecked [of 128 example_material "[CmdBindPipeline 604]" example_payload]
  show ?thesis by simp
qed

end
